theory Spec2Isabelle
  imports Main "HOL-Library.Word"
begin

section \<open>The byte source\<close>

text \<open>
  The decoder of \<^verbatim>\<open>DMC3/model.py\<close> works on one binary file opened for reading. The file
  is a finite list of bytes together with the cursor of the file object; every class of
  the module keeps a reference to the same file object, so the cursor is threaded through
  all decoders as explicit state. Python integers are unbounded and are modelled by
  \<open>int\<close>.
\<close>

type_synonym byte = "8 word"

record reader =
  data :: "byte list"
  pos :: nat

text \<open>
  The exceptions the decoder can raise: a read past the end of the file, a seek to a
  negative position, a list index out of range, and a read of the module-global
  \<^verbatim>\<open>model\<close> before it is bound.
\<close>

datatype error = OutOfBounds | SeekError | IndexError | NameError

type_synonym 'a io = "reader \<Rightarrow> error + ('a \<times> reader)"

definition return_io :: "'a \<Rightarrow> 'a io" where
  "return_io x f = Inr (x, f)"

definition fail_io :: "error \<Rightarrow> 'a io" where
  "fail_io e f = Inl e"

definition bind_io :: "'a io \<Rightarrow> ('a \<Rightarrow> 'b io) \<Rightarrow> 'b io" where
  "bind_io m k f = (case m f of Inl e \<Rightarrow> Inl e | Inr (x, f') \<Rightarrow> k x f')"

text \<open>
  A comprehension or \<^verbatim>\<open>for\<close> loop whose body reads from the file: the bodies run in
  order, each on the cursor the previous one left, and the first exception ends the loop.
\<close>

fun for_io :: "('i \<Rightarrow> 'a io) \<Rightarrow> 'i list \<Rightarrow> 'a list io" where
  "for_io body [] f = Inr ([], f)"
| "for_io body (i # is) f =
     (case body i f of
        Inl e \<Rightarrow> Inl e
      | Inr (x, f') \<Rightarrow>
          (case for_io body is f' of
             Inl e \<Rightarrow> Inl e
           | Inr (xs, f'') \<Rightarrow> Inr (x # xs, f'')))"

text \<open>Python's \<^verbatim>\<open>range(n)\<close>: empty when \<open>n\<close> is not positive.\<close>

definition range_py :: "int \<Rightarrow> int list" where
  "range_py n = map int [0..<nat n]"

text \<open>
  Python's list indexing: an index from \<open>-len\<close> to \<open>len - 1\<close> is accepted, a negative one
  counts from the end, anything else raises \<^verbatim>\<open>IndexError\<close>.
\<close>

definition py_index :: "'a list \<Rightarrow> int \<Rightarrow> error + nat" where
  "py_index xs i =
     (if 0 \<le> i \<and> i < int (length xs) then Inr (nat i)
      else if - int (length xs) \<le> i \<and> i < 0 then Inr (nat (i + int (length xs)))
      else Inl IndexError)"

definition py_get :: "'a list \<Rightarrow> int \<Rightarrow> error + 'a" where
  "py_get xs i = (case py_index xs i of Inl e \<Rightarrow> Inl e | Inr j \<Rightarrow> Inr (xs ! j))"

subsection \<open>Seeking\<close>

text \<open>
  \<^verbatim>\<open>f.seek(offs)\<close>, \<^verbatim>\<open>f.seek(d, 1)\<close> and \<^verbatim>\<open>f.tell()\<close> of Python's buffered reader. A seek
  beyond the end of the file is accepted (only a later read fails); a seek to a negative
  position raises.
\<close>

definition seek_set :: "int \<Rightarrow> unit io" where
  "seek_set offs f = (if offs < 0 then Inl SeekError else Inr ((), f\<lparr>pos := nat offs\<rparr>))"

definition seek_cur :: "int \<Rightarrow> unit io" where
  "seek_cur d f =
     (if int (pos f) + d < 0 then Inl SeekError
      else Inr ((), f\<lparr>pos := nat (int (pos f) + d)\<rparr>))"

definition tell :: "int io" where
  "tell f = Inr (int (pos f), f)"

subsection \<open>Fixed-width reads\<close>

text \<open>
  Modelled from the spec: the module \<^verbatim>\<open>common.io\<close> (\<^verbatim>\<open>ReadSInt16\<close>, \<^verbatim>\<open>ReadSInt32\<close>,
  \<^verbatim>\<open>ReadSInt64\<close>, \<^verbatim>\<open>ReadUByte\<close>, \<^verbatim>\<open>ReadByte\<close>, \<^verbatim>\<open>ReadFloat\<close>, \<^verbatim>\<open>ReadString\<close>) is imported by
  \<^verbatim>\<open>model.py\<close> but is not among the sources. The specification's primitive reader gives
  their contract: fixed-width little-endian reads of 1, 2, 4 and 8-byte signed integers,
  of a 4-byte IEEE float and of a fixed-length string; every read advances the cursor by
  the width read, and a read past the end of the buffer fails with \<open>OutOfBounds\<close>.
  \<^verbatim>\<open>ReadUByte\<close> is the unsigned 1-byte read. A float is kept as its 32-bit pattern: no
  claim depends on its numeric value.
\<close>

definition read_bytes :: "nat \<Rightarrow> byte list io" where
  "read_bytes n f =
     (if pos f + n \<le> length (data f)
      then Inr (take n (drop (pos f) (data f)), f\<lparr>pos := pos f + n\<rparr>)
      else Inl OutOfBounds)"

fun le_uint :: "byte list \<Rightarrow> int" where
  "le_uint [] = 0"
| "le_uint (b # bs) = uint b + 256 * le_uint bs"

definition le_sint :: "byte list \<Rightarrow> int" where
  "le_sint bs =
     (let u = le_uint bs; w = 8 * length bs
      in if 2 ^ (w - 1) \<le> u then u - 2 ^ w else u)"

datatype float = Float32 int

definition ReadUByte :: "int io" where
  "ReadUByte = bind_io (read_bytes 1) (\<lambda>bs. return_io (le_uint bs))"

definition ReadByte :: "int io" where
  "ReadByte = bind_io (read_bytes 1) (\<lambda>bs. return_io (le_sint bs))"

definition ReadSInt16 :: "int io" where
  "ReadSInt16 = bind_io (read_bytes 2) (\<lambda>bs. return_io (le_sint bs))"

definition ReadSInt32 :: "int io" where
  "ReadSInt32 = bind_io (read_bytes 4) (\<lambda>bs. return_io (le_sint bs))"

definition ReadSInt64 :: "int io" where
  "ReadSInt64 = bind_io (read_bytes 8) (\<lambda>bs. return_io (le_sint bs))"

definition ReadFloat :: "float io" where
  "ReadFloat = bind_io (read_bytes 4) (\<lambda>bs. return_io (Float32 (le_uint bs)))"

definition ReadString :: "nat \<Rightarrow> string io" where
  "ReadString n = bind_io (read_bytes n) (\<lambda>bs. return_io (map (\<lambda>b. char_of (uint b)) bs))"

section \<open>Skeleton\<close>

text \<open>
  A \<^verbatim>\<open>Bone\<close> is created with its position and index and with \<^verbatim>\<open>parent = None\<close>; the
  skeleton later stores an integer in \<^verbatim>\<open>parent\<close>.
\<close>

record Bone =
  position :: "float list"
  idx :: int
  parent :: "int option"

definition Bone_init :: "float list \<Rightarrow> int \<Rightarrow> Bone" where
  "Bone_init vec i = \<lparr>position = vec, idx = i, parent = None\<rparr>"

record Skeleton =
  sk_boneCount :: int
  hierarchyOffs :: int
  hierarchyOrderOffs :: int
  childIdxOffs :: int
  transformsOffs :: int
  bones :: "Bone list"
  hierarchy :: "int list"
  hierarchyOrder :: "int list"
  childIndices :: "int list"
  parents :: "int list"

text \<open>
  The body of the transform loop (lines 167 to 169): three floats, one \<^verbatim>\<open>Bone\<close>, then a
  relative seek over the 0x14 bytes that remain of the entry.
\<close>

definition read_bone :: "int \<Rightarrow> Bone io" where
  "read_bone i =
     bind_io ReadFloat (\<lambda>x.
     bind_io ReadFloat (\<lambda>y.
     bind_io ReadFloat (\<lambda>z.
     bind_io (seek_cur 0x14) (\<lambda>_.
     return_io (Bone_init [x, y, z] i)))))"

text \<open>
  The ownership loop (lines 174 and 175), over the indices \<open>is\<close> still to be processed:
  \<^verbatim>\<open>self.bones[self.hierarchyOrder[i]].parent = self.hierarchy[i]\<close>.
\<close>

fun remap_parents :: "int list \<Rightarrow> int list \<Rightarrow> int list \<Rightarrow> Bone list \<Rightarrow> error + Bone list" where
  "remap_parents order hier [] bs = Inr bs"
| "remap_parents order hier (i # is) bs =
     (case py_get hier i of
        Inl e \<Rightarrow> Inl e
      | Inr p \<Rightarrow>
          (case py_get order i of
             Inl e \<Rightarrow> Inl e
           | Inr k \<Rightarrow>
               (case py_index bs k of
                  Inl e \<Rightarrow> Inl e
                | Inr j \<Rightarrow> remap_parents order hier is (bs[j := (bs ! j)\<lparr>parent := Some p\<rparr>]))))"

definition Skeleton_init :: "int \<Rightarrow> Skeleton io" where
  "Skeleton_init boneCount =
     bind_io tell (\<lambda>base_offset.
     bind_io ReadSInt32 (\<lambda>hierarchyOffs.
     bind_io ReadSInt32 (\<lambda>hierarchyOrderOffs.
     bind_io ReadSInt32 (\<lambda>childIdxOffs.
     bind_io ReadSInt32 (\<lambda>transformsOffs.
     bind_io (seek_set (base_offset + hierarchyOffs)) (\<lambda>_.
     bind_io (for_io (\<lambda>_. ReadByte) (range_py boneCount)) (\<lambda>hierarchy.
     bind_io (seek_set (base_offset + hierarchyOrderOffs)) (\<lambda>_.
     bind_io (for_io (\<lambda>_. ReadByte) (range_py boneCount)) (\<lambda>hierarchyOrder.
     bind_io (seek_set (base_offset + childIdxOffs)) (\<lambda>_.
     bind_io (for_io (\<lambda>_. ReadByte) (range_py boneCount)) (\<lambda>childIndices.
     bind_io (seek_set (base_offset + transformsOffs)) (\<lambda>_.
     bind_io (for_io read_bone (range_py boneCount)) (\<lambda>bones0.
     (case remap_parents hierarchyOrder hierarchy (range_py boneCount) bones0 of
        Inl e \<Rightarrow> fail_io e
      | Inr bones1 \<Rightarrow>
          return_io
            \<lparr>sk_boneCount = boneCount,
             hierarchyOffs = hierarchyOffs,
             hierarchyOrderOffs = hierarchyOrderOffs,
             childIdxOffs = childIdxOffs,
             transformsOffs = transformsOffs,
             bones = bones1,
             hierarchy = hierarchy,
             hierarchyOrder = hierarchyOrder,
             childIndices = childIndices,
             parents = map (\<lambda>_. - 1) (range_py boneCount)\<rparr>))))))))))))))"

section \<open>Mesh, Object and Model\<close>

text \<open>
  \<^verbatim>\<open>Mesh.__init__\<close> stores \<^verbatim>\<open>[Vector] * vertCount\<close> in \<^verbatim>\<open>positions\<close>: a list whose entries
  are the class object \<^verbatim>\<open>Vector\<close>, standing in for vectors still to be decoded. In one
  \<^verbatim>\<open>Mesh\<close> only some of the attributes \<^verbatim>\<open>boneIndiciesOffs\<close>, \<^verbatim>\<open>weightsOffs\<close> and
  \<^verbatim>\<open>uknOffs\<close> are assigned; an attribute never assigned is \<open>None\<close> here.
\<close>

datatype vector_slot = Vector_class | Vector_value "float list"

record Mesh =
  meshIdx :: int
  vertCount :: int
  texInd :: int
  positionsOffs :: int
  normalsOffs :: int
  UVsOffs :: int
  boneIndiciesOffs :: "int option"
  weightsOffs :: "int option"
  uknOffs :: "int option"
  mesh_ukn :: int
  positions :: "vector_slot list"
  normals :: "float list list"
  UVs :: "float list list"
  boneIndicies :: "int list list"
  boneWeights :: "float list list"
  vertColour :: "float list list"
  triSkip :: "int list"
  faces :: "int list list"
  vertGrp :: "int list option list"

text \<open>
  \<^verbatim>\<open>Object.__init__\<close> leaves \<^verbatim>\<open>meshes\<close> unassigned (the assignment is commented out);
  \<^verbatim>\<open>ParseMeshes\<close> assigns it.
\<close>

record Object =
  objectIdx :: int
  meshCount :: int
  obj_ukn :: int
  numVerts :: int
  mshOffs :: int
  flags :: int
  X :: float
  Y :: float
  Z :: float
  radius :: float
  meshes :: "Mesh list option"

record Model =
  Id_str :: string
  version :: float
  padding :: int
  objectCount :: int
  boneCount :: int
  numTex :: int
  uknByte :: int
  model_ukn :: int
  ukn2 :: int
  skeletonOffs :: int
  objects :: "Object list"
  skeleton :: "Skeleton option"

text \<open>
  \<^verbatim>\<open>Mesh.__init__\<close> (lines 52 to 81). The name \<^verbatim>\<open>model\<close> in its body is the module-global
  variable that \<^verbatim>\<open>Import\<close> binds; it is the first argument here, \<open>None\<close> while the
  global is unbound. The global is looked up first at line 62, after the common prefix
  has been read.
\<close>

definition Mesh_init :: "Model option \<Rightarrow> int \<Rightarrow> Mesh io" where
  "Mesh_init model mesh_index =
     bind_io ReadSInt16 (\<lambda>vertCount.
     bind_io ReadSInt16 (\<lambda>texInd.
     bind_io (seek_cur 12) (\<lambda>_.
     bind_io ReadSInt64 (\<lambda>positionsOffs.
     bind_io ReadSInt64 (\<lambda>normalsOffs.
     bind_io ReadSInt64 (\<lambda>UVsOffs.
     (case model of
        None \<Rightarrow> fail_io NameError
      | Some m \<Rightarrow>
          bind_io
            (if Id_str m \<noteq> ''SCM ''
             then
               bind_io ReadSInt64 (\<lambda>boneIndiciesOffs.
               bind_io ReadSInt64 (\<lambda>weightsOffs.
               bind_io (seek_cur 8) (\<lambda>_.
               return_io (Some boneIndiciesOffs, Some weightsOffs, None))))
             else
               bind_io (seek_cur 16) (\<lambda>_.
               bind_io ReadSInt64 (\<lambda>uknOffs.
               return_io (None, None, Some uknOffs))))
            (\<lambda>(boneIndiciesOffs, weightsOffs, uknOffs).
             bind_io ReadSInt64 (\<lambda>ukn.
             bind_io (seek_cur 8) (\<lambda>_.
             return_io
               \<lparr>meshIdx = mesh_index,
                vertCount = vertCount,
                texInd = texInd,
                positionsOffs = positionsOffs,
                normalsOffs = normalsOffs,
                UVsOffs = UVsOffs,
                boneIndiciesOffs = boneIndiciesOffs,
                weightsOffs = weightsOffs,
                uknOffs = uknOffs,
                mesh_ukn = ukn,
                positions = replicate (nat vertCount) Vector_class,
                normals = [],
                UVs = [],
                boneIndicies = [],
                boneWeights = [],
                vertColour = [],
                triSkip = [],
                faces = [],
                vertGrp = replicate (nat (boneCount m)) None\<rparr>))))))))))"

text \<open>\<^verbatim>\<open>Object.__init__\<close> (lines 100 to 113).\<close>

definition Object_init :: "int \<Rightarrow> Object io" where
  "Object_init object_index =
     bind_io ReadByte (\<lambda>meshCount.
     bind_io ReadByte (\<lambda>ukn.
     bind_io ReadSInt16 (\<lambda>numVerts.
     bind_io ReadSInt32 (\<lambda>_.
     bind_io ReadSInt64 (\<lambda>mshOffs.
     bind_io ReadSInt32 (\<lambda>flags.
     bind_io (seek_cur 28) (\<lambda>_.
     bind_io ReadFloat (\<lambda>x.
     bind_io ReadFloat (\<lambda>y.
     bind_io ReadFloat (\<lambda>z.
     bind_io ReadFloat (\<lambda>radius.
     return_io
       \<lparr>objectIdx = object_index,
        meshCount = meshCount,
        obj_ukn = ukn,
        numVerts = numVerts,
        mshOffs = mshOffs,
        flags = flags,
        X = x,
        Y = y,
        Z = z,
        radius = radius,
        meshes = None\<rparr>)))))))))))"

text \<open>\<^verbatim>\<open>Object.ParseMeshes\<close> (lines 117 to 121), with the module-global \<^verbatim>\<open>model\<close>.\<close>

definition Object_ParseMeshes :: "Model option \<Rightarrow> Object \<Rightarrow> Object io" where
  "Object_ParseMeshes model self =
     bind_io (seek_set (mshOffs self)) (\<lambda>_.
     bind_io (for_io (Mesh_init model) (range_py (meshCount self))) (\<lambda>ms.
     return_io (self\<lparr>meshes := Some ms\<rparr>)))"

text \<open>\<^verbatim>\<open>Model.__init__\<close> (lines 185 to 198).\<close>

definition Model_init :: "Model io" where
  "Model_init =
     bind_io (ReadString 4) (\<lambda>Id.
     bind_io ReadFloat (\<lambda>version.
     bind_io ReadSInt64 (\<lambda>padding.
     bind_io ReadUByte (\<lambda>objectCount.
     bind_io ReadByte (\<lambda>boneCount.
     bind_io ReadByte (\<lambda>numTex.
     bind_io ReadByte (\<lambda>uknByte.
     bind_io ReadSInt32 (\<lambda>ukn.
     bind_io ReadSInt64 (\<lambda>ukn2.
     bind_io ReadSInt64 (\<lambda>skeletonOffs.
     return_io
       \<lparr>Id_str = Id,
        version = version,
        padding = padding,
        objectCount = objectCount,
        boneCount = boneCount,
        numTex = numTex,
        uknByte = uknByte,
        model_ukn = ukn,
        ukn2 = ukn2,
        skeletonOffs = skeletonOffs,
        objects = [],
        skeleton = None\<rparr>))))))))))"

text \<open>\<^verbatim>\<open>Model.ParseObjects\<close> (lines 200 to 203).\<close>

definition ParseObjects :: "Model \<Rightarrow> Model io" where
  "ParseObjects self =
     bind_io (seek_set 0x40) (\<lambda>_.
     bind_io (for_io Object_init (range_py (objectCount self))) (\<lambda>objs.
     return_io (self\<lparr>objects := objects self @ objs\<rparr>)))"

text \<open>\<^verbatim>\<open>Model.ParseMeshes\<close> (lines 205 to 207), with the module-global \<^verbatim>\<open>model\<close>.\<close>

definition ParseMeshes :: "Model option \<Rightarrow> Model \<Rightarrow> Model io" where
  "ParseMeshes model self =
     bind_io (for_io (Object_ParseMeshes model) (objects self)) (\<lambda>objs.
     return_io (self\<lparr>objects := objs\<rparr>))"

text \<open>\<^verbatim>\<open>Model.ParseSkeleton\<close> (lines 217 to 219).\<close>

definition ParseSkeleton :: "Model \<Rightarrow> Model io" where
  "ParseSkeleton self =
     bind_io (seek_set (skeletonOffs self)) (\<lambda>_.
     bind_io (Skeleton_init (boneCount self)) (\<lambda>sk.
     return_io (self\<lparr>skeleton := Some sk\<rparr>)))"

section \<open>Triangle strips\<close>

text \<open>
  Modelled from the spec: the function \<^verbatim>\<open>ParseVerts\<close> of \<^verbatim>\<open>common.meshutils\<close>, which fills
  the buffers and the face list of a mesh, is imported by \<^verbatim>\<open>model.py\<close> but is not among
  the sources. The specification describes its topology step: the stream of vertex
  indices and skip markers is unrolled as a triangle strip with a window of the last two
  indices that were not skipped. A skip marker empties the window and emits no face, so
  that the next triangle is a fresh one. Any other index joins the window while the
  window holds fewer than two indices; once the window is full it is combined with the
  window into one triangle and replaces the older window entry. The winding order
  alternates with every emitted triangle, starting anew after a skip marker.
\<close>

datatype strip_entry = Index int | SKIP

record strip_state =
  window :: "int list"
  flipped :: bool
  emitted :: "(int \<times> int \<times> int) list"

definition strip_init :: strip_state where
  "strip_init = \<lparr>window = [], flipped = False, emitted = []\<rparr>"

fun strip_step :: "strip_state \<Rightarrow> strip_entry \<Rightarrow> strip_state" where
  "strip_step s SKIP = s\<lparr>window := [], flipped := False\<rparr>"
| "strip_step s (Index v) =
     (case window s of
        [p, q] \<Rightarrow>
          s\<lparr>window := [q, v],
            flipped := \<not> flipped s,
            emitted := emitted s @ [if flipped s then (q, p, v) else (p, q, v)]\<rparr>
      | w \<Rightarrow> s\<lparr>window := w @ [v]\<rparr>)"

definition unroll_strip :: "strip_entry list \<Rightarrow> (int \<times> int \<times> int) list" where
  "unroll_strip stream = emitted (foldl strip_step strip_init stream)"

section \<open>Layouts\<close>

text \<open>
  The byte layouts of the specification, against which the decoders above are compared.
  \<open>slice d p n\<close> is the field of \<open>n\<close> bytes at offset \<open>p\<close> of the file \<open>d\<close>.
\<close>

definition slice :: "byte list \<Rightarrow> nat \<Rightarrow> nat \<Rightarrow> byte list" where
  "slice d p n = take n (drop p d)"

text \<open>
  A transform-table entry at offset \<open>p\<close>: three floats (the local position); the entry is
  32 bytes long, the 0x14 bytes after the floats are not read.
\<close>

definition bone_at :: "byte list \<Rightarrow> nat \<Rightarrow> int \<Rightarrow> Bone" where
  "bone_at d p i =
     Bone_init [Float32 (le_uint (slice d p 4)),
                Float32 (le_uint (slice d (p + 4) 4)),
                Float32 (le_uint (slice d (p + 8) 4))] i"

text \<open>
  An object record at offset \<open>p\<close>, 64 bytes: mesh count (1 byte), one unknown byte, vertex
  count (2 bytes), a discarded 4-byte integer, mesh-table offset (8 bytes), flags
  (4 bytes), 28 discarded bytes, then the four floats x, y, z and radius.
\<close>

definition object_at :: "byte list \<Rightarrow> nat \<Rightarrow> int \<Rightarrow> Object" where
  "object_at d p i =
     \<lparr>objectIdx = i,
      meshCount = le_sint (slice d p 1),
      obj_ukn = le_sint (slice d (p + 1) 1),
      numVerts = le_sint (slice d (p + 2) 2),
      mshOffs = le_sint (slice d (p + 8) 8),
      flags = le_sint (slice d (p + 16) 4),
      X = Float32 (le_uint (slice d (p + 48) 4)),
      Y = Float32 (le_uint (slice d (p + 52) 4)),
      Z = Float32 (le_uint (slice d (p + 56) 4)),
      radius = Float32 (le_uint (slice d (p + 60) 4)),
      meshes = None\<rparr>"

text \<open>
  A mesh header at offset \<open>p\<close>, 80 bytes. Common prefix: vertex count (2 bytes), texture
  index (2 bytes), 12 bytes of padding, the offsets of positions, normals and UVs (8 bytes
  each). Skinned variant: the offsets of bone indices and of weights (8 bytes each), then
  8 bytes of padding. Baked variant: 16 bytes of padding, then one offset (8 bytes). Both
  variants: one scalar (8 bytes), then 8 bytes of padding. \<open>nbones\<close> is the bone count of
  the model the header is decoded for.
\<close>

definition mesh_at :: "bool \<Rightarrow> int \<Rightarrow> byte list \<Rightarrow> nat \<Rightarrow> int \<Rightarrow> Mesh" where
  "mesh_at skinned nbones d p i =
     \<lparr>meshIdx = i,
      vertCount = le_sint (slice d p 2),
      texInd = le_sint (slice d (p + 2) 2),
      positionsOffs = le_sint (slice d (p + 16) 8),
      normalsOffs = le_sint (slice d (p + 24) 8),
      UVsOffs = le_sint (slice d (p + 32) 8),
      boneIndiciesOffs = (if skinned then Some (le_sint (slice d (p + 40) 8)) else None),
      weightsOffs = (if skinned then Some (le_sint (slice d (p + 48) 8)) else None),
      uknOffs = (if skinned then None else Some (le_sint (slice d (p + 56) 8))),
      mesh_ukn = le_sint (slice d (p + 64) 8),
      positions = replicate (nat (le_sint (slice d p 2))) Vector_class,
      normals = [],
      UVs = [],
      boneIndicies = [],
      boneWeights = [],
      vertColour = [],
      triSkip = [],
      faces = [],
      vertGrp = replicate (nat nbones) None\<rparr>"

text \<open>
  The model header at offset \<open>p\<close>, 40 bytes: the 4-byte tag, the version float, 8 bytes
  of padding, object count, bone count, texture count and one unknown byte (1 byte
  each), an unknown 4-byte integer, an unknown 8-byte integer and the 8-byte offset of
  the skeleton block. The shell has no objects and no skeleton yet.
\<close>

definition model_at :: "byte list \<Rightarrow> nat \<Rightarrow> Model" where
  "model_at d p =
     \<lparr>Id_str = map (\<lambda>b. char_of (uint b)) (slice d p 4),
      version = Float32 (le_uint (slice d (p + 4) 4)),
      padding = le_sint (slice d (p + 8) 8),
      objectCount = le_uint (slice d (p + 16) 1),
      boneCount = le_sint (slice d (p + 17) 1),
      numTex = le_sint (slice d (p + 18) 1),
      uknByte = le_sint (slice d (p + 19) 1),
      model_ukn = le_sint (slice d (p + 20) 4),
      ukn2 = le_sint (slice d (p + 24) 8),
      skeletonOffs = le_sint (slice d (p + 32) 8),
      objects = [],
      skeleton = None\<rparr>"

section \<open>Example inputs\<close>

text \<open>
  Two skeleton blocks of three bones, each starting at offset 0: the four table offsets,
  the parent table, the order table, the child-object table and three transform entries
  of 32 bytes. In the first the parent table is \<open>[2, -1, 0]\<close> and the order table
  \<open>[1, 2, 0]\<close>. In the second the order table is the identity and the parent table
  makes bone 0 and bone 1 each other's parent.
\<close>

definition example_skeleton_bytes :: "byte list" where
  "example_skeleton_bytes =
     [16, 0, 0, 0] @ [19, 0, 0, 0] @ [22, 0, 0, 0] @ [25, 0, 0, 0] @
     [2, 255, 0] @
     [1, 2, 0] @
     [255, 0, 255] @
     [0, 0, 128, 63] @ [0, 0, 0, 0] @ [0, 0, 0, 0] @ replicate 20 0 @
     [0, 0, 0, 0] @ [0, 0, 128, 63] @ [0, 0, 0, 0] @ replicate 20 0 @
     [0, 0, 0, 0] @ [0, 0, 0, 0] @ [0, 0, 128, 63] @ replicate 20 0"

definition example_skeleton :: Skeleton where
  "example_skeleton =
     \<lparr>sk_boneCount = 3, hierarchyOffs = 16, hierarchyOrderOffs = 19, childIdxOffs = 22,
      transformsOffs = 25,
      bones =
        [\<lparr>position = [Float32 1065353216, Float32 0, Float32 0], idx = 0, parent = Some 0\<rparr>,
         \<lparr>position = [Float32 0, Float32 1065353216, Float32 0], idx = 1, parent = Some 2\<rparr>,
         \<lparr>position = [Float32 0, Float32 0, Float32 1065353216], idx = 2, parent = Some (- 1)\<rparr>],
      hierarchy = [2, - 1, 0],
      hierarchyOrder = [1, 2, 0],
      childIndices = [- 1, 0, - 1],
      parents = [- 1, - 1, - 1]\<rparr>"

definition cyclic_skeleton_bytes :: "byte list" where
  "cyclic_skeleton_bytes =
     [16, 0, 0, 0] @ [19, 0, 0, 0] @ [22, 0, 0, 0] @ [25, 0, 0, 0] @
     [1, 0, 255] @
     [0, 1, 2] @
     [255, 255, 255] @
     [0, 0, 128, 63] @ [0, 0, 0, 0] @ [0, 0, 0, 0] @ replicate 20 0 @
     [0, 0, 0, 0] @ [0, 0, 128, 63] @ [0, 0, 0, 0] @ replicate 20 0 @
     [0, 0, 0, 0] @ [0, 0, 0, 0] @ [0, 0, 128, 63] @ replicate 20 0"

definition cyclic_skeleton :: Skeleton where
  "cyclic_skeleton =
     \<lparr>sk_boneCount = 3, hierarchyOffs = 16, hierarchyOrderOffs = 19, childIdxOffs = 22,
      transformsOffs = 25,
      bones =
        [\<lparr>position = [Float32 1065353216, Float32 0, Float32 0], idx = 0, parent = Some 1\<rparr>,
         \<lparr>position = [Float32 0, Float32 1065353216, Float32 0], idx = 1, parent = Some 0\<rparr>,
         \<lparr>position = [Float32 0, Float32 0, Float32 1065353216], idx = 2, parent = Some (- 1)\<rparr>],
      hierarchy = [1, 0, - 1],
      hierarchyOrder = [0, 1, 2],
      childIndices = [- 1, - 1, - 1],
      parents = [- 1, - 1, - 1]\<rparr>"

text \<open>
  A 40-byte header whose tag is \<open>XXXX\<close>, with the model shell it decodes to.
\<close>

definition unknown_tag_header :: "byte list" where
  "unknown_tag_header =
     [88, 88, 88, 88] @ [0, 0, 128, 63] @ [0, 0, 0, 0, 0, 0, 0, 0] @
     [1, 3, 2, 0] @ [0, 0, 0, 0] @ [0, 0, 0, 0, 0, 0, 0, 0] @
     [128, 0, 0, 0, 0, 0, 0, 0]"

definition unknown_tag_model :: Model where
  "unknown_tag_model =
     \<lparr>Id_str = ''XXXX'', version = Float32 1065353216, padding = 0, objectCount = 1,
      boneCount = 3, numTex = 2, uknByte = 0, model_ukn = 0, ukn2 = 0, skeletonOffs = 128,
      objects = [], skeleton = None\<rparr>"

text \<open>
  Two values of the module-global \<^verbatim>\<open>model\<close>, one with the tag \<open>SCM\<close> followed by a blank
  and three bones, one with the tag \<open>MOD\<close> followed by a blank and five bones; one
  80-byte mesh header with two vertices, and what it decodes to under either model.
\<close>

definition baked_model :: Model where
  "baked_model =
     \<lparr>Id_str = ''SCM '', version = Float32 1065353216, padding = 0, objectCount = 1,
      boneCount = 3, numTex = 2, uknByte = 0, model_ukn = 0, ukn2 = 0, skeletonOffs = 128,
      objects = [], skeleton = None\<rparr>"

definition skinned_model :: Model where
  "skinned_model =
     \<lparr>Id_str = ''MOD '', version = Float32 1065353216, padding = 0, objectCount = 1,
      boneCount = 5, numTex = 2, uknByte = 0, model_ukn = 0, ukn2 = 0, skeletonOffs = 128,
      objects = [], skeleton = None\<rparr>"

definition example_mesh_bytes :: "byte list" where
  "example_mesh_bytes =
     [2, 0] @ [1, 0] @ [0, 0, 0, 0, 0, 0, 0, 0, 0, 0, 0, 0] @
     [0, 1, 0, 0, 0, 0, 0, 0] @ [0, 2, 0, 0, 0, 0, 0, 0] @ [0, 3, 0, 0, 0, 0, 0, 0] @
     [0, 4, 0, 0, 0, 0, 0, 0] @ [0, 5, 0, 0, 0, 0, 0, 0] @ [0, 6, 0, 0, 0, 0, 0, 0] @
     [7, 0, 0, 0, 0, 0, 0, 0] @ [0, 0, 0, 0, 0, 0, 0, 0]"

definition skinned_example_mesh :: Mesh where
  "skinned_example_mesh =
     \<lparr>meshIdx = 0, vertCount = 2, texInd = 1, positionsOffs = 256, normalsOffs = 512,
      UVsOffs = 768, boneIndiciesOffs = Some 1024, weightsOffs = Some 1280, uknOffs = None,
      mesh_ukn = 7, positions = [Vector_class, Vector_class], normals = [], UVs = [],
      boneIndicies = [], boneWeights = [], vertColour = [], triSkip = [], faces = [],
      vertGrp = [None, None, None, None, None]\<rparr>"

definition baked_example_mesh :: Mesh where
  "baked_example_mesh =
     \<lparr>meshIdx = 0, vertCount = 2, texInd = 1, positionsOffs = 256, normalsOffs = 512,
      UVsOffs = 768, boneIndiciesOffs = None, weightsOffs = None, uknOffs = Some 1536,
      mesh_ukn = 7, positions = [Vector_class, Vector_class], normals = [], UVs = [],
      boneIndicies = [], boneWeights = [], vertColour = [], triSkip = [], faces = [],
      vertGrp = [None, None, None]\<rparr>"

text \<open>
  A file of 128 bytes: the header of the second model, padding up to offset 0x40, and one
  object record.
\<close>

definition example_object_file :: "byte list" where
  "example_object_file =
     [77, 79, 68, 32] @ [0, 0, 128, 63] @ [0, 0, 0, 0, 0, 0, 0, 0] @
     [1, 5, 2, 0] @ [0, 0, 0, 0] @ [0, 0, 0, 0, 0, 0, 0, 0] @
     [128, 0, 0, 0, 0, 0, 0, 0] @
     [0, 0, 0, 0, 0, 0, 0, 0, 0, 0, 0, 0, 0, 0, 0, 0, 0, 0, 0, 0, 0, 0, 0, 0] @
     [1] @ [0] @ [2, 0] @ [0, 0, 0, 0] @ [128, 0, 0, 0, 0, 0, 0, 0] @ [5, 0, 0, 0] @
     [0, 0, 0, 0, 0, 0, 0, 0, 0, 0, 0, 0, 0, 0,
      0, 0, 0, 0, 0, 0, 0, 0, 0, 0, 0, 0, 0, 0] @
     [0, 0, 128, 63] @ [0, 0, 0, 64] @ [0, 0, 64, 64] @ [0, 0, 128, 64]"

definition example_object :: Object where
  "example_object =
     \<lparr>objectIdx = 0, meshCount = 1, obj_ukn = 0, numVerts = 2, mshOffs = 128, flags = 5,
      X = Float32 1065353216, Y = Float32 1073741824, Z = Float32 1077936128,
      radius = Float32 1082130432, meshes = None\<rparr>"

section \<open>Properties of the reader\<close>

lemma bind_return_io: "bind_io (return_io x) k f = k x f"
  by (simp add: bind_io_def return_io_def)

lemma bind_fail_io: "bind_io (fail_io e) k f = Inl e"
  by (simp add: bind_io_def fail_io_def)

lemma bind_assoc_io: "bind_io (bind_io m k1) k2 f = bind_io m (\<lambda>x. bind_io (k1 x) k2) f"
  by (simp add: bind_io_def split: sum.splits prod.splits)

lemma bind_read_bytes:
  "bind_io (read_bytes n) k f =
     (if pos f + n \<le> length (data f)
      then k (slice (data f) (pos f) n) (f\<lparr>pos := pos f + n\<rparr>)
      else Inl OutOfBounds)"
  by (simp add: bind_io_def read_bytes_def slice_def)

lemma bind_ReadUByte:
  "bind_io ReadUByte k f =
     (if pos f + 1 \<le> length (data f)
      then k (le_uint (slice (data f) (pos f) 1)) (f\<lparr>pos := pos f + 1\<rparr>)
      else Inl OutOfBounds)"
  by (simp add: ReadUByte_def bind_assoc_io bind_read_bytes bind_return_io)

lemma bind_ReadByte:
  "bind_io ReadByte k f =
     (if pos f + 1 \<le> length (data f)
      then k (le_sint (slice (data f) (pos f) 1)) (f\<lparr>pos := pos f + 1\<rparr>)
      else Inl OutOfBounds)"
  by (simp add: ReadByte_def bind_assoc_io bind_read_bytes bind_return_io)

lemma bind_ReadSInt16:
  "bind_io ReadSInt16 k f =
     (if pos f + 2 \<le> length (data f)
      then k (le_sint (slice (data f) (pos f) 2)) (f\<lparr>pos := pos f + 2\<rparr>)
      else Inl OutOfBounds)"
  by (simp add: ReadSInt16_def bind_assoc_io bind_read_bytes bind_return_io)

lemma bind_ReadSInt32:
  "bind_io ReadSInt32 k f =
     (if pos f + 4 \<le> length (data f)
      then k (le_sint (slice (data f) (pos f) 4)) (f\<lparr>pos := pos f + 4\<rparr>)
      else Inl OutOfBounds)"
  by (simp add: ReadSInt32_def bind_assoc_io bind_read_bytes bind_return_io)

lemma bind_ReadSInt64:
  "bind_io ReadSInt64 k f =
     (if pos f + 8 \<le> length (data f)
      then k (le_sint (slice (data f) (pos f) 8)) (f\<lparr>pos := pos f + 8\<rparr>)
      else Inl OutOfBounds)"
  by (simp add: ReadSInt64_def bind_assoc_io bind_read_bytes bind_return_io)

lemma bind_ReadFloat:
  "bind_io ReadFloat k f =
     (if pos f + 4 \<le> length (data f)
      then k (Float32 (le_uint (slice (data f) (pos f) 4))) (f\<lparr>pos := pos f + 4\<rparr>)
      else Inl OutOfBounds)"
  by (simp add: ReadFloat_def bind_assoc_io bind_read_bytes bind_return_io)

lemma bind_ReadString:
  "bind_io (ReadString n) k f =
     (if pos f + n \<le> length (data f)
      then k (map (\<lambda>b. char_of (uint b)) (slice (data f) (pos f) n)) (f\<lparr>pos := pos f + n\<rparr>)
      else Inl OutOfBounds)"
  by (simp add: ReadString_def bind_assoc_io bind_read_bytes bind_return_io)

lemma bind_seek_cur:
  "bind_io (seek_cur d) k f =
     (if int (pos f) + d < 0 then Inl SeekError
      else k () (f\<lparr>pos := nat (int (pos f) + d)\<rparr>))"
  by (simp add: bind_io_def seek_cur_def)

lemma bind_seek_cur_nonneg:
  "0 \<le> d \<Longrightarrow> bind_io (seek_cur d) k f = k () (f\<lparr>pos := pos f + nat d\<rparr>)"
  by (simp add: bind_seek_cur nat_add_distrib)

lemma bind_seek_set:
  "bind_io (seek_set offs) k f =
     (if offs < 0 then Inl SeekError else k () (f\<lparr>pos := nat offs\<rparr>))"
  by (simp add: bind_io_def seek_set_def)

lemma bind_tell: "bind_io tell k f = k (int (pos f)) f"
  by (simp add: bind_io_def tell_def)

lemmas bind_reads = bind_ReadUByte bind_ReadByte bind_ReadSInt16 bind_ReadSInt32 bind_ReadSInt64
  bind_ReadFloat bind_ReadString bind_seek_cur_nonneg bind_seek_set bind_tell bind_return_io bind_fail_io

lemma Model_init_eq:
  "Model_init f =
     (if pos f + 40 \<le> length (data f)
      then Inr (\<lparr>Id_str = map (\<lambda>b. char_of (uint b)) (slice (data f) (pos f) 4),
                 version = Float32 (le_uint (slice (data f) (pos f + 4) 4)),
                 padding = le_sint (slice (data f) (pos f + 8) 8),
                 objectCount = le_uint (slice (data f) (pos f + 16) 1),
                 boneCount = le_sint (slice (data f) (pos f + 17) 1),
                 numTex = le_sint (slice (data f) (pos f + 18) 1),
                 uknByte = le_sint (slice (data f) (pos f + 19) 1),
                 model_ukn = le_sint (slice (data f) (pos f + 20) 4),
                 ukn2 = le_sint (slice (data f) (pos f + 24) 8),
                 skeletonOffs = le_sint (slice (data f) (pos f + 32) 8),
                 objects = [],
                 skeleton = None\<rparr>, f\<lparr>pos := pos f + 40\<rparr>)
      else Inl OutOfBounds)"
  by (simp add: Model_init_def bind_reads return_io_def add.commute)


lemma Mesh_init_eq:
  "Mesh_init (Some g) i f =
     (if pos f + 72 \<le> length (data f)
      then Inr (\<lparr>meshIdx = i,
                 vertCount = le_sint (slice (data f) (pos f) 2),
                 texInd = le_sint (slice (data f) (pos f + 2) 2),
                 positionsOffs = le_sint (slice (data f) (pos f + 16) 8),
                 normalsOffs = le_sint (slice (data f) (pos f + 24) 8),
                 UVsOffs = le_sint (slice (data f) (pos f + 32) 8),
                 boneIndiciesOffs =
                   (if Id_str g \<noteq> ''SCM '' then Some (le_sint (slice (data f) (pos f + 40) 8)) else None),
                 weightsOffs =
                   (if Id_str g \<noteq> ''SCM '' then Some (le_sint (slice (data f) (pos f + 48) 8)) else None),
                 uknOffs =
                   (if Id_str g \<noteq> ''SCM '' then None else Some (le_sint (slice (data f) (pos f + 56) 8))),
                 mesh_ukn = le_sint (slice (data f) (pos f + 64) 8),
                 positions = replicate (nat (le_sint (slice (data f) (pos f) 2))) Vector_class,
                 normals = [],
                 UVs = [],
                 boneIndicies = [],
                 boneWeights = [],
                 vertColour = [],
                 triSkip = [],
                 faces = [],
                 vertGrp = replicate (nat (boneCount g)) None\<rparr>, f\<lparr>pos := pos f + 80\<rparr>)
      else Inl OutOfBounds)"
  by (simp add: Mesh_init_def bind_assoc_io bind_reads return_io_def add.commute)

lemma Mesh_init_None:
  "Mesh_init None i f = (if pos f + 40 \<le> length (data f) then Inl NameError else Inl OutOfBounds)"
  by (simp add: Mesh_init_def bind_reads fail_io_def add.commute)

lemma Object_init_eq:
  "Object_init i f =
     (if pos f + 64 \<le> length (data f)
      then Inr (\<lparr>objectIdx = i,
                 meshCount = le_sint (slice (data f) (pos f) 1),
                 obj_ukn = le_sint (slice (data f) (pos f + 1) 1),
                 numVerts = le_sint (slice (data f) (pos f + 2) 2),
                 mshOffs = le_sint (slice (data f) (pos f + 8) 8),
                 flags = le_sint (slice (data f) (pos f + 16) 4),
                 X = Float32 (le_uint (slice (data f) (pos f + 48) 4)),
                 Y = Float32 (le_uint (slice (data f) (pos f + 52) 4)),
                 Z = Float32 (le_uint (slice (data f) (pos f + 56) 4)),
                 radius = Float32 (le_uint (slice (data f) (pos f + 60) 4)),
                 meshes = None\<rparr>, f\<lparr>pos := pos f + 64\<rparr>)
      else Inl OutOfBounds)"
  by (simp add: Object_init_def bind_reads return_io_def add.commute)

lemma read_bone_eq:
  "read_bone i f =
     (if pos f + 12 \<le> length (data f)
      then Inr (Bone_init [Float32 (le_uint (slice (data f) (pos f) 4)),
                           Float32 (le_uint (slice (data f) (pos f + 4) 4)),
                           Float32 (le_uint (slice (data f) (pos f + 8) 4))] i,
                f\<lparr>pos := pos f + 32\<rparr>)
      else Inl OutOfBounds)"
  by (simp add: read_bone_def bind_reads return_io_def add.commute)

lemma ReadByte_eq:
  "ReadByte f =
     (if pos f + 1 \<le> length (data f)
      then Inr (le_sint (slice (data f) (pos f) 1), f\<lparr>pos := pos f + 1\<rparr>)
      else Inl OutOfBounds)"
  by (simp add: ReadByte_def bind_read_bytes return_io_def)

section \<open>Properties of the header decoders\<close>

lemma for_io_fixed:
  assumes body: "\<And>i f. body i f =
      (if pos f + need \<le> length (data f)
       then Inr (at (data f) (pos f) i, f\<lparr>pos := pos f + stride\<rparr>)
       else Inl OutOfBounds)"
  shows "for_io body is f =
     (if is = [] \<or> pos f + stride * length is + need \<le> length (data f) + stride
      then Inr (map (\<lambda>k. at (data f) (pos f + stride * k) (is ! k)) [0..<length is],
                f\<lparr>pos := pos f + stride * length is\<rparr>)
      else Inl OutOfBounds)"
proof (induction "is" arbitrary: f)
  case Nil
  show ?case by simp
next
  case (Cons i "is")
  show ?case
  proof (cases "pos f + need \<le> length (data f)")
    case False
    then have "body i f = Inl OutOfBounds" by (simp add: body)
    then show ?thesis using False by simp
  next
    case True
    have rb: "body i f = Inr (at (data f) (pos f) i, f\<lparr>pos := pos f + stride\<rparr>)"
      using True by (simp add: body)
    have m: "map (\<lambda>k. at (data f) (pos f + stride * k) ((i # is) ! k)) [0..<length (i # is)] =
             at (data f) (pos f) i #
             map (\<lambda>k. at (data f) (pos f + stride + stride * k) (is ! k)) [0..<length is]"
      by (simp add: map_upt_Suc add_ac del: upt_Suc)
    show ?thesis
      unfolding m using True by (simp add: rb Cons.IH add_ac)
  qed
qed

lemma Mesh_init_at:
  "Mesh_init (Some g) i f =
     (if pos f + 72 \<le> length (data f)
      then Inr (mesh_at (Id_str g \<noteq> ''SCM '') (boneCount g) (data f) (pos f) i,
                f\<lparr>pos := pos f + 80\<rparr>)
      else Inl OutOfBounds)"
  by (simp add: Mesh_init_eq mesh_at_def)

lemma Object_init_at:
  "Object_init i f =
     (if pos f + 64 \<le> length (data f)
      then Inr (object_at (data f) (pos f) i, f\<lparr>pos := pos f + 64\<rparr>)
      else Inl OutOfBounds)"
  by (simp add: Object_init_eq object_at_def)

lemma for_Mesh_init:
  "for_io (Mesh_init (Some g)) (range_py mc) f =
     (if nat mc = 0 \<or> pos f + 80 * nat mc \<le> length (data f) + 8
      then Inr (map (\<lambda>k. mesh_at (Id_str g \<noteq> ''SCM '') (boneCount g) (data f)
                            (pos f + 80 * k) (int k)) [0..<nat mc],
                f\<lparr>pos := pos f + 80 * nat mc\<rparr>)
      else Inl OutOfBounds)"
  using for_io_fixed [of "Mesh_init (Some g)" 72
      "mesh_at (Id_str g \<noteq> ''SCM '') (boneCount g)" 80 "range_py mc" f, OF Mesh_init_at]
  by (simp add: range_py_def)

lemma for_Object_init:
  "for_io Object_init (range_py oc) f =
     (if nat oc = 0 \<or> pos f + 64 * nat oc \<le> length (data f)
      then Inr (map (\<lambda>k. object_at (data f) (pos f + 64 * k) (int k)) [0..<nat oc],
                f\<lparr>pos := pos f + 64 * nat oc\<rparr>)
      else Inl OutOfBounds)"
  using for_io_fixed [of Object_init 64 object_at 64 "range_py oc" f, OF Object_init_at]
  by (simp add: range_py_def)

lemma Object_ParseMeshes_eq:
  "Object_ParseMeshes (Some g) ob f =
     (if mshOffs ob < 0 then Inl SeekError
      else if nat (meshCount ob) = 0 \<or>
              nat (mshOffs ob) + 80 * nat (meshCount ob) \<le> length (data f) + 8
      then Inr (ob\<lparr>meshes := Some (map (\<lambda>k. mesh_at (Id_str g \<noteq> ''SCM '') (boneCount g) (data f)
                                             (nat (mshOffs ob) + 80 * k) (int k))
                                      [0..<nat (meshCount ob)])\<rparr>,
                f\<lparr>pos := nat (mshOffs ob) + 80 * nat (meshCount ob)\<rparr>)
      else Inl OutOfBounds)"
  unfolding Object_ParseMeshes_def bind_seek_set
  by (simp add: bind_io_def for_Mesh_init return_io_def)

lemma ParseObjects_eq:
  "ParseObjects m f =
     (if nat (objectCount m) = 0 \<or> 64 + 64 * nat (objectCount m) \<le> length (data f)
      then Inr (m\<lparr>objects := objects m @
                    map (\<lambda>k. object_at (data f) (64 + 64 * k) (int k)) [0..<nat (objectCount m)]\<rparr>,
                f\<lparr>pos := 64 + 64 * nat (objectCount m)\<rparr>)
      else Inl OutOfBounds)"
  unfolding ParseObjects_def bind_seek_set
  by (simp add: bind_io_def for_Object_init return_io_def)

section \<open>Properties of the skeleton decoder\<close>

lemma py_index_cong: "length xs = length ys \<Longrightarrow> py_index xs i = py_index ys i"
  by (simp add: py_index_def)

lemma py_index_less: "py_index xs i = Inr j \<Longrightarrow> j < length xs"
  by (auto simp: py_index_def Let_def split: if_splits)

lemma py_index_Inr_iff:
  "(\<exists>j. py_index xs i = Inr j) \<longleftrightarrow> - int (length xs) \<le> i \<and> i < int (length xs)"
  by (auto simp: py_index_def Let_def)

lemma py_get_nat: "i < length xs \<Longrightarrow> py_get xs (int i) = Inr (xs ! i)"
  by (simp add: py_get_def py_index_def)

lemma remap_parents_length:
  "remap_parents order hier is bs = Inr bs' \<Longrightarrow> length bs' = length bs"
  by (induction "is" arbitrary: bs) (auto split: sum.splits)

lemma remap_parents_append:
  "remap_parents order hier (is1 @ is2) bs =
     (case remap_parents order hier is1 bs of
        Inl e \<Rightarrow> Inl e
      | Inr b1 \<Rightarrow> remap_parents order hier is2 b1)"
  by (induction is1 arbitrary: bs) (auto split: sum.splits)

lemma remap_parents_untouched:
  "remap_parents order hier is bs = Inr bs' \<Longrightarrow>
   \<forall>i\<in>set is. \<forall>k. py_get order i = Inr k \<longrightarrow> py_index bs k \<noteq> Inr j \<Longrightarrow>
   bs' ! j = bs ! j"
proof (induction "is" arbitrary: bs)
  case Nil
  then show ?case by simp
next
  case (Cons i "is")
  from Cons.prems(1) obtain p k j0 where
    p: "py_get hier i = Inr p" and k: "py_get order i = Inr k" and j0: "py_index bs k = Inr j0"
    and rest: "remap_parents order hier is (bs[j0 := (bs ! j0)\<lparr>parent := Some p\<rparr>]) = Inr bs'"
    by (auto split: sum.splits)
  have ne: "j0 \<noteq> j" using Cons.prems(2) k j0 by auto
  have "py_index (bs[j0 := (bs ! j0)\<lparr>parent := Some p\<rparr>]) k = py_index bs k" for k
    by (rule py_index_cong) simp
  then have "\<forall>i\<in>set is. \<forall>k. py_get order i = Inr k \<longrightarrow>
          py_index (bs[j0 := (bs ! j0)\<lparr>parent := Some p\<rparr>]) k \<noteq> Inr j"
    using Cons.prems(2) by simp
  from Cons.IH [OF rest this] have "bs' ! j = (bs[j0 := (bs ! j0)\<lparr>parent := Some p\<rparr>]) ! j" .
  with ne show ?case by simp
qed

lemma remap_parents_receives:
  assumes run: "remap_parents order hier (map int [0..<n]) bs = Inr bs'"
    and lo: "length order = n" and lh: "length hier = n" and i: "i < n"
  shows "\<exists>j. py_index bs (order ! i) = Inr j \<and>
           (\<exists>b1. remap_parents order hier (map int [0..<Suc i]) bs = Inr b1 \<and>
                  parent (b1 ! j) = Some (hier ! i)) \<and>
           ((\<forall>i'. i < i' \<and> i' < n \<longrightarrow> py_index bs (order ! i') \<noteq> Inr j) \<longrightarrow>
              parent (bs' ! j) = Some (hier ! i))"
proof -
  have split: "map int [0..<n] = map int [0..<i] @ int i # map int [Suc i..<n]"
    using i by (metis less_imp_add_positive map_append list.simps(9) upt_add_eq_append upt_conv_Cons zero_le)
  from run obtain b0 where b0: "remap_parents order hier (map int [0..<i]) bs = Inr b0"
    and run1: "remap_parents order hier (int i # map int [Suc i..<n]) b0 = Inr bs'"
    by (auto simp: split remap_parents_append split: sum.splits)
  have lb0: "length b0 = length bs" using b0 by (rule remap_parents_length)
  have gh: "py_get hier (int i) = Inr (hier ! i)" using i lh by (simp add: py_get_nat)
  have go: "py_get order (int i) = Inr (order ! i)" using i lo by (simp add: py_get_nat)
  from run1 gh go obtain j where j0: "py_index b0 (order ! i) = Inr j"
    and run2: "remap_parents order hier (map int [Suc i..<n])
                 (b0[j := (b0 ! j)\<lparr>parent := Some (hier ! i)\<rparr>]) = Inr bs'"
    by (auto split: sum.splits)
  let ?b1 = "b0[j := (b0 ! j)\<lparr>parent := Some (hier ! i)\<rparr>]"
  have j: "py_index bs (order ! i) = Inr j" using j0 lb0 py_index_cong [of b0 bs] by simp
  have jl: "j < length b0" using j0 by (rule py_index_less)
  have step: "remap_parents order hier (map int [0..<Suc i]) bs = Inr ?b1"
    using b0 gh go j0 by (simp add: remap_parents_append)
  have p1: "parent (?b1 ! j) = Some (hier ! i)" using jl by simp
  have final: "parent (bs' ! j) = Some (hier ! i)"
    if later: "\<forall>i'. i < i' \<and> i' < n \<longrightarrow> py_index bs (order ! i') \<noteq> Inr j"
  proof -
    have "\<forall>x\<in>set (map int [Suc i..<n]). \<forall>k. py_get order x = Inr k \<longrightarrow> py_index ?b1 k \<noteq> Inr j"
    proof (intro ballI allI impI)
      fix x k assume x: "x \<in> set (map int [Suc i..<n])" and k: "py_get order x = Inr k"
      from x obtain i' where i': "x = int i'" "i < i'" "i' < n" by auto
      then have "k = order ! i'" using k lo by (simp add: py_get_nat)
      moreover have "py_index ?b1 k = py_index bs k"
        using lb0 by (intro py_index_cong) simp
      ultimately show "py_index ?b1 k \<noteq> Inr j" using later i' by simp
    qed
    from remap_parents_untouched [OF run2 this] p1 show ?thesis by simp
  qed
  show ?thesis using j step p1 final by blast
qed

lemma remap_parents_total:
  assumes "length order = n" and "length hier = n" and "length bs = n"
    and "\<forall>k\<in>set order. - int n \<le> k \<and> k < int n"
  shows "\<exists>bs'. remap_parents order hier (map int [0..<n]) bs = Inr bs'"
proof -
  have "set is \<subseteq> {0..<n} \<Longrightarrow> length bs = n \<Longrightarrow> \<exists>bs'. remap_parents order hier (map int is) bs = Inr bs'" for "is" bs
  proof (induction "is" arbitrary: bs)
    case Nil
    then show ?case by simp
  next
    case (Cons i "is")
    then have i: "i < n" by simp
    then have "order ! i \<in> set order" using assms(1) by simp
    then have "- int n \<le> order ! i \<and> order ! i < int n" using assms(4) by blast
    then obtain j where j: "py_index bs (order ! i) = Inr j"
      using Cons.prems(2) py_index_Inr_iff [of bs "order ! i"] by auto
    have "length (bs[j := (bs ! j)\<lparr>parent := Some (hier ! i)\<rparr>]) = n" using Cons.prems(2) by simp
    with Cons.IH [of "bs[j := (bs ! j)\<lparr>parent := Some (hier ! i)\<rparr>]"] Cons.prems(1)
    obtain bs' where "remap_parents order hier (map int is) (bs[j := (bs ! j)\<lparr>parent := Some (hier ! i)\<rparr>]) = Inr bs'"
      by auto
    then show ?case using i j assms(1,2) by (simp add: py_get_nat)
  qed
  from this [of "[0..<n]" bs] assms(3) show ?thesis by auto
qed

lemma length_range_py: "length (range_py n) = nat n"
  by (simp add: range_py_def)

lemma slice_0: "slice d p 0 = []"
  by (simp add: slice_def)

lemma slice_Suc: "p < length d \<Longrightarrow> slice d p (Suc n) = d ! p # slice d (Suc p) n"
  by (simp add: slice_def Cons_nth_drop_Suc [symmetric])

lemma for_ReadByte_eq:
  "for_io (\<lambda>_. ReadByte) is f =
     (if is = [] \<or> pos f + length is \<le> length (data f)
      then Inr (map (\<lambda>b. le_sint [b]) (slice (data f) (pos f) (length is)),
                f\<lparr>pos := pos f + length is\<rparr>)
      else Inl OutOfBounds)"
proof (induction "is" arbitrary: f)
  case Nil
  show ?case by (simp add: slice_0)
next
  case (Cons i "is")
  show ?case
  proof (cases "pos f + 1 \<le> length (data f)")
    case False
    then show ?thesis by (simp add: ReadByte_eq)
  next
    case True
    then have sl: "slice (data f) (pos f) (Suc n) = data f ! pos f # slice (data f) (Suc (pos f)) n" for n
      by (simp add: slice_Suc)
    have rb: "ReadByte f = Inr (le_sint [data f ! pos f], f\<lparr>pos := pos f + 1\<rparr>)"
      using True by (simp add: ReadByte_eq sl slice_0)
    show ?thesis
      using True by (simp add: rb Cons.IH sl)
  qed
qed

lemma for_read_bone_eq:
  "for_io read_bone is f =
     (if is = [] \<or> pos f + 32 * length is \<le> length (data f) + 20
      then Inr (map (\<lambda>k. bone_at (data f) (pos f + 32 * k) (is ! k)) [0..<length is],
                f\<lparr>pos := pos f + 32 * length is\<rparr>)
      else Inl OutOfBounds)"
proof (induction "is" arbitrary: f)
  case Nil
  show ?case by simp
next
  case (Cons i "is")
  show ?case
  proof (cases "pos f + 12 \<le> length (data f)")
    case False
    then have "read_bone i f = Inl OutOfBounds" by (simp add: read_bone_eq)
    then show ?thesis using False by simp
  next
    case True
    have rb: "read_bone i f = Inr (bone_at (data f) (pos f) i, f\<lparr>pos := pos f + 32\<rparr>)"
      using True by (simp add: read_bone_eq bone_at_def)
    have m: "map (\<lambda>k. bone_at (data f) (pos f + 32 * k) ((i # is) ! k)) [0..<length (i # is)] =
             bone_at (data f) (pos f) i #
             map (\<lambda>k. bone_at (data f) (pos f + 32 + 32 * k) (is ! k)) [0..<length is]"
      by (simp add: map_upt_Suc add_ac del: upt_Suc)
    show ?thesis
      unfolding m using True by (simp add: rb Cons.IH add_ac)
  qed
qed

lemma for_read_bone_range:
  "for_io read_bone (range_py bc) f =
     (if nat bc = 0 \<or> pos f + 32 * nat bc \<le> length (data f) + 20
      then Inr (map (\<lambda>k. bone_at (data f) (pos f + 32 * k) (int k)) [0..<nat bc],
                f\<lparr>pos := pos f + 32 * nat bc\<rparr>)
      else Inl OutOfBounds)"
  by (simp add: for_read_bone_eq range_py_def)

lemma bind_for_ReadByte:
  "bind_io (for_io (\<lambda>_. ReadByte) (range_py bc)) k f =
     (if nat bc = 0 \<or> pos f + nat bc \<le> length (data f)
      then k (map (\<lambda>b. le_sint [b]) (slice (data f) (pos f) (nat bc))) (f\<lparr>pos := pos f + nat bc\<rparr>)
      else Inl OutOfBounds)"
  by (simp add: bind_io_def for_ReadByte_eq length_range_py range_py_def)

lemma bind_for_read_bone:
  "bind_io (for_io read_bone (range_py bc)) k f =
     (if nat bc = 0 \<or> pos f + 32 * nat bc \<le> length (data f) + 20
      then k (map (\<lambda>k. bone_at (data f) (pos f + 32 * k) (int k)) [0..<nat bc])
             (f\<lparr>pos := pos f + 32 * nat bc\<rparr>)
      else Inl OutOfBounds)"
  by (simp add: bind_io_def for_read_bone_range)

lemma Skeleton_init_eq:
  "Skeleton_init bc f =
     (if pos f + 16 \<le> length (data f)
      then
        (let d = data f; base = int (pos f); n = nat bc;
             hO = le_sint (slice d (pos f) 4);
             oO = le_sint (slice d (pos f + 4) 4);
             cO = le_sint (slice d (pos f + 8) 4);
             tO = le_sint (slice d (pos f + 12) 4);
             hp = nat (base + hO); op = nat (base + oO);
             cp = nat (base + cO); tp = nat (base + tO)
         in if base + hO < 0 then Inl SeekError
            else if \<not> (n = 0 \<or> hp + n \<le> length d) then Inl OutOfBounds
            else if base + oO < 0 then Inl SeekError
            else if \<not> (n = 0 \<or> op + n \<le> length d) then Inl OutOfBounds
            else if base + cO < 0 then Inl SeekError
            else if \<not> (n = 0 \<or> cp + n \<le> length d) then Inl OutOfBounds
            else if base + tO < 0 then Inl SeekError
            else if \<not> (n = 0 \<or> tp + 32 * n \<le> length d + 20) then Inl OutOfBounds
            else
              (case remap_parents
                      (map (\<lambda>b. le_sint [b]) (slice d op n))
                      (map (\<lambda>b. le_sint [b]) (slice d hp n))
                      (range_py bc)
                      (map (\<lambda>k. bone_at d (tp + 32 * k) (int k)) [0..<n]) of
                 Inl e \<Rightarrow> Inl e
               | Inr bones1 \<Rightarrow>
                   Inr (\<lparr>sk_boneCount = bc, hierarchyOffs = hO, hierarchyOrderOffs = oO,
                         childIdxOffs = cO, transformsOffs = tO, bones = bones1,
                         hierarchy = map (\<lambda>b. le_sint [b]) (slice d hp n),
                         hierarchyOrder = map (\<lambda>b. le_sint [b]) (slice d op n),
                         childIndices = map (\<lambda>b. le_sint [b]) (slice d cp n),
                         parents = map (\<lambda>_. - 1) (range_py bc)\<rparr>,
                        f\<lparr>pos := tp + 32 * n\<rparr>)))
      else Inl OutOfBounds)"
  unfolding Skeleton_init_def
  by (simp add: bind_reads bind_for_ReadByte bind_for_read_bone Let_def return_io_def fail_io_def
      add.commute split: sum.splits)

lemma bind_io_InrE:
  assumes "bind_io m k f = Inr r"
  obtains x f1 where "m f = Inr (x, f1)" and "k x f1 = Inr r"
  using assms by (auto simp: bind_io_def split: sum.splits)

lemma tell_Inr_iff: "tell f = Inr (x, f1) \<longleftrightarrow> x = int (pos f) \<and> f1 = f"
  by (auto simp: tell_def)

lemma seek_set_Inr_iff:
  "seek_set offs f = Inr (u, f1) \<longleftrightarrow> 0 \<le> offs \<and> f1 = f\<lparr>pos := nat offs\<rparr>"
  by (auto simp: seek_set_def)

lemma ReadSInt32_Inr_iff:
  "ReadSInt32 f = Inr (x, f1) \<longleftrightarrow>
     pos f + 4 \<le> length (data f) \<and> x = le_sint (slice (data f) (pos f) 4) \<and>
     f1 = f\<lparr>pos := pos f + 4\<rparr>"
  by (auto simp: ReadSInt32_def bind_read_bytes return_io_def)

lemma for_ReadByte_Inr_iff:
  "for_io (\<lambda>_. ReadByte) (range_py bc) f = Inr (xs, f1) \<longleftrightarrow>
     (nat bc = 0 \<or> pos f + nat bc \<le> length (data f)) \<and>
     xs = map (\<lambda>b. le_sint [b]) (slice (data f) (pos f) (nat bc)) \<and>
     f1 = f\<lparr>pos := pos f + nat bc\<rparr>"
  by (auto simp: for_ReadByte_eq length_range_py range_py_def)

lemma for_read_bone_Inr_iff:
  "for_io read_bone (range_py bc) f = Inr (bs, f1) \<longleftrightarrow>
     (nat bc = 0 \<or> pos f + 32 * nat bc \<le> length (data f) + 20) \<and>
     bs = map (\<lambda>k. bone_at (data f) (pos f + 32 * k) (int k)) [0..<nat bc] \<and>
     f1 = f\<lparr>pos := pos f + 32 * nat bc\<rparr>"
  by (auto simp: for_read_bone_range)

lemma remap_result_Inr_iff:
  "(case m of Inl e \<Rightarrow> fail_io e | Inr b \<Rightarrow> return_io (g b)) f = Inr (sk, f1) \<longleftrightarrow>
     (\<exists>b. m = Inr b \<and> sk = g b \<and> f1 = f)"
  by (cases m) (auto simp: fail_io_def return_io_def)

lemma Skeleton_init_Inr_conj:
  assumes "Skeleton_init bc f = Inr (sk, f')"
  shows "pos f + 16 \<le> length (data f) \<and>
    hierarchyOffs sk = le_sint (slice (data f) (pos f) 4) \<and>
    hierarchyOrderOffs sk = le_sint (slice (data f) (pos f + 4) 4) \<and>
    childIdxOffs sk = le_sint (slice (data f) (pos f + 8) 4) \<and>
    transformsOffs sk = le_sint (slice (data f) (pos f + 12) 4) \<and>
    hierarchy sk =
      map (\<lambda>b. le_sint [b]) (slice (data f) (nat (int (pos f) + hierarchyOffs sk)) (nat bc)) \<and>
    hierarchyOrder sk =
      map (\<lambda>b. le_sint [b]) (slice (data f) (nat (int (pos f) + hierarchyOrderOffs sk)) (nat bc)) \<and>
    childIndices sk =
      map (\<lambda>b. le_sint [b]) (slice (data f) (nat (int (pos f) + childIdxOffs sk)) (nat bc)) \<and>
    (nat bc = 0 \<or> nat (int (pos f) + hierarchyOffs sk) + nat bc \<le> length (data f)) \<and>
    (nat bc = 0 \<or> nat (int (pos f) + hierarchyOrderOffs sk) + nat bc \<le> length (data f)) \<and>
    (nat bc = 0 \<or> nat (int (pos f) + childIdxOffs sk) + nat bc \<le> length (data f)) \<and>
    remap_parents (hierarchyOrder sk) (hierarchy sk) (range_py bc)
      (map (\<lambda>k. bone_at (data f) (nat (int (pos f) + transformsOffs sk) + 32 * k) (int k))
         [0..<nat bc]) = Inr (bones sk) \<and>
    parents sk = map (\<lambda>_. - 1) (range_py bc) \<and>
    f' = f\<lparr>pos := nat (int (pos f) + transformsOffs sk) + 32 * nat bc\<rparr> \<and>
    0 \<le> int (pos f) + hierarchyOffs sk \<and>
    0 \<le> int (pos f) + hierarchyOrderOffs sk \<and>
    0 \<le> int (pos f) + childIdxOffs sk \<and>
    0 \<le> int (pos f) + transformsOffs sk \<and>
    (nat bc = 0 \<or>
     nat (int (pos f) + transformsOffs sk) + 32 * nat bc \<le> length (data f) + 20) \<and>
    sk_boneCount sk = bc"
  using assms unfolding Skeleton_init_def
  apply (elim bind_io_InrE)
  apply (clarsimp simp: tell_Inr_iff seek_set_Inr_iff ReadSInt32_Inr_iff for_ReadByte_Inr_iff
      for_read_bone_Inr_iff remap_result_Inr_iff add.commute)
  done

lemma Skeleton_init_InrD:
  assumes "Skeleton_init bc f = Inr (sk, f')"
  shows "pos f + 16 \<le> length (data f)"
    and "hierarchyOffs sk = le_sint (slice (data f) (pos f) 4)"
    and "hierarchyOrderOffs sk = le_sint (slice (data f) (pos f + 4) 4)"
    and "childIdxOffs sk = le_sint (slice (data f) (pos f + 8) 4)"
    and "transformsOffs sk = le_sint (slice (data f) (pos f + 12) 4)"
    and "hierarchy sk =
           map (\<lambda>b. le_sint [b]) (slice (data f) (nat (int (pos f) + hierarchyOffs sk)) (nat bc))"
    and "hierarchyOrder sk =
           map (\<lambda>b. le_sint [b]) (slice (data f) (nat (int (pos f) + hierarchyOrderOffs sk)) (nat bc))"
    and "childIndices sk =
           map (\<lambda>b. le_sint [b]) (slice (data f) (nat (int (pos f) + childIdxOffs sk)) (nat bc))"
    and "nat bc = 0 \<or> nat (int (pos f) + hierarchyOffs sk) + nat bc \<le> length (data f)"
    and "nat bc = 0 \<or> nat (int (pos f) + hierarchyOrderOffs sk) + nat bc \<le> length (data f)"
    and "nat bc = 0 \<or> nat (int (pos f) + childIdxOffs sk) + nat bc \<le> length (data f)"
    and "remap_parents (hierarchyOrder sk) (hierarchy sk) (range_py bc)
           (map (\<lambda>k. bone_at (data f) (nat (int (pos f) + transformsOffs sk) + 32 * k) (int k))
              [0..<nat bc]) = Inr (bones sk)"
    and "parents sk = map (\<lambda>_. - 1) (range_py bc)"
    and "f' = f\<lparr>pos := nat (int (pos f) + transformsOffs sk) + 32 * nat bc\<rparr>"
    and "0 \<le> int (pos f) + hierarchyOffs sk"
    and "0 \<le> int (pos f) + hierarchyOrderOffs sk"
    and "0 \<le> int (pos f) + childIdxOffs sk"
    and "0 \<le> int (pos f) + transformsOffs sk"
    and "nat bc = 0 \<or>
         nat (int (pos f) + transformsOffs sk) + 32 * nat bc \<le> length (data f) + 20"
    and "sk_boneCount sk = bc"
  using Skeleton_init_Inr_conj [OF assms] by blast+

lemma remap_parents_reset:
  "remap_parents order hier is bs = Inr bs' \<Longrightarrow>
   map (\<lambda>b. b\<lparr>parent := None\<rparr>) bs' = map (\<lambda>b. b\<lparr>parent := None\<rparr>) bs"
proof (induction "is" arbitrary: bs)
  case Nil
  then show ?case by simp
next
  case (Cons i "is")
  from Cons.prems obtain p k j0 where j0: "py_index bs k = Inr j0"
    and rest: "remap_parents order hier is (bs[j0 := (bs ! j0)\<lparr>parent := Some p\<rparr>]) = Inr bs'"
    by (auto split: sum.splits)
  have "j0 < length bs" using j0 by (rule py_index_less)
  then have "map (\<lambda>b. b\<lparr>parent := None\<rparr>) (bs[j0 := (bs ! j0)\<lparr>parent := Some p\<rparr>]) =
             map (\<lambda>b. b\<lparr>parent := None\<rparr>) bs"
    by (simp add: map_update list_update_same_conv)
  with Cons.IH [OF rest] show ?case by simp
qed

lemma Skeleton_init_remap:
  assumes "Skeleton_init bc f = Inr (sk, f')"
  shows "length (hierarchy sk) = nat bc \<and> length (hierarchyOrder sk) = nat bc \<and>
         length (childIndices sk) = nat bc \<and>
         map (\<lambda>b. b\<lparr>parent := None\<rparr>) (bones sk) =
           map (\<lambda>k. bone_at (data f) (nat (int (pos f) + transformsOffs sk) + 32 * k) (int k))
             [0..<nat bc] \<and>
         remap_parents (hierarchyOrder sk) (hierarchy sk) (range_py bc)
           (map (\<lambda>b. b\<lparr>parent := None\<rparr>) (bones sk)) = Inr (bones sk)"
proof -
  note d = Skeleton_init_InrD [OF assms]
  let ?b0 = "map (\<lambda>k. bone_at (data f) (nat (int (pos f) + transformsOffs sk) + 32 * k) (int k))
               [0..<nat bc]"
  have lh: "length (hierarchy sk) = nat bc"
    using d(9) by (subst d(6)) (auto simp: slice_def)
  have lo: "length (hierarchyOrder sk) = nat bc"
    using d(10) by (subst d(7)) (auto simp: slice_def)
  have lc: "length (childIndices sk) = nat bc"
    using d(11) by (subst d(8)) (auto simp: slice_def)
  have "map (\<lambda>b. b\<lparr>parent := None\<rparr>) (bones sk) = map (\<lambda>b. b\<lparr>parent := None\<rparr>) ?b0"
    using d(12) by (rule remap_parents_reset)
  also have "\<dots> = ?b0" by (simp add: bone_at_def Bone_init_def)
  finally have bs: "map (\<lambda>b. b\<lparr>parent := None\<rparr>) (bones sk) = ?b0" .
  show ?thesis using lh lo lc bs d(12) by simp
qed

lemma remap_parents_Inr_range:
  assumes "remap_parents order hier (map int [0..<n]) bs = Inr bs'"
    and "length order = n" and "length hier = n" and "length bs = n"
  shows "\<forall>k\<in>set order. - int n \<le> k \<and> k < int n"
proof
  fix k assume "k \<in> set order"
  then obtain i where i: "i < n" and k: "k = order ! i"
    using assms(2) by (auto simp: in_set_conv_nth)
  from remap_parents_receives [OF assms(1) assms(2) assms(3) i]
  obtain j where "py_index bs (order ! i) = Inr j" by blast
  then have "\<exists>j. py_index bs k = Inr j" using k by blast
  then show "- int n \<le> k \<and> k < int n"
    using assms(4) by (simp add: py_index_Inr_iff)
qed

lemma Skeleton_init_succeeds_iff:
  "(\<exists>sk f'. Skeleton_init bc f = Inr (sk, f')) \<longleftrightarrow>
     pos f + 16 \<le> length (data f) \<and>
     (let d = data f; n = nat bc;
          hp = int (pos f) + le_sint (slice d (pos f) 4);
          op = int (pos f) + le_sint (slice d (pos f + 4) 4);
          cp = int (pos f) + le_sint (slice d (pos f + 8) 4);
          tp = int (pos f) + le_sint (slice d (pos f + 12) 4)
      in 0 \<le> hp \<and> 0 \<le> op \<and> 0 \<le> cp \<and> 0 \<le> tp \<and>
         (n = 0 \<or>
          nat hp + n \<le> length d \<and> nat op + n \<le> length d \<and> nat cp + n \<le> length d \<and>
          nat tp + 32 * n \<le> length d + 20) \<and>
         (\<forall>b\<in>set (slice d (nat op) n). - int n \<le> le_sint [b] \<and> le_sint [b] < int n))"
  (is "?L \<longleftrightarrow> ?R")
proof
  assume ?L
  then obtain sk f' where dec: "Skeleton_init bc f = Inr (sk, f')" by blast
  note d = Skeleton_init_InrD [OF dec]
  note r = Skeleton_init_remap [OF dec]
  let ?b0 = "map (\<lambda>k. bone_at (data f) (nat (int (pos f) + transformsOffs sk) + 32 * k) (int k))
               [0..<nat bc]"
  have "remap_parents (hierarchyOrder sk) (hierarchy sk) (map int [0..<nat bc]) ?b0 = Inr (bones sk)"
    using d(12) unfolding range_py_def .
  from remap_parents_Inr_range [OF this] r
  have "\<forall>k\<in>set (hierarchyOrder sk). - int (nat bc) \<le> k \<and> k < int (nat bc)" by simp
  then have rng: "\<forall>b\<in>set (slice (data f) (nat (int (pos f) + hierarchyOrderOffs sk)) (nat bc)).
      - int (nat bc) \<le> le_sint [b] \<and> le_sint [b] < int (nat bc)"
    by (subst (asm) d(7)) simp
  show ?R
    using d(1) d(9) d(10) d(11) d(15) d(16) d(17) d(18) d(19) rng
    unfolding d(2) d(3) d(4) d(5) Let_def by blast
next
  assume R: ?R
  let ?d = "data f" and ?n = "nat bc"
  let ?hO = "le_sint (slice ?d (pos f) 4)" and ?oO = "le_sint (slice ?d (pos f + 4) 4)"
  let ?cO = "le_sint (slice ?d (pos f + 8) 4)" and ?tO = "le_sint (slice ?d (pos f + 12) 4)"
  let ?hp = "nat (int (pos f) + ?hO)" and ?op = "nat (int (pos f) + ?oO)"
  let ?cp = "nat (int (pos f) + ?cO)" and ?tp = "nat (int (pos f) + ?tO)"
  let ?hier = "map (\<lambda>b. le_sint [b]) (slice ?d ?hp ?n)"
  let ?order = "map (\<lambda>b. le_sint [b]) (slice ?d ?op ?n)"
  let ?b0 = "map (\<lambda>k. bone_at ?d (?tp + 32 * k) (int k)) [0..<?n]"
  from R have b16: "pos f + 16 \<le> length ?d"
    and nn: "0 \<le> int (pos f) + ?hO" "0 \<le> int (pos f) + ?oO" "0 \<le> int (pos f) + ?cO"
      "0 \<le> int (pos f) + ?tO"
    and bnd: "?n = 0 \<or> ?hp + ?n \<le> length ?d" "?n = 0 \<or> ?op + ?n \<le> length ?d"
      "?n = 0 \<or> ?cp + ?n \<le> length ?d" "?n = 0 \<or> ?tp + 32 * ?n \<le> length ?d + 20"
    and rng: "\<forall>b\<in>set (slice ?d ?op ?n). - int ?n \<le> le_sint [b] \<and> le_sint [b] < int ?n"
    unfolding Let_def by blast+
  have lo: "length ?order = ?n" using bnd(2) by (auto simp: slice_def)
  have lh: "length ?hier = ?n" using bnd(1) by (auto simp: slice_def)
  have "\<forall>k\<in>set ?order. - int ?n \<le> k \<and> k < int ?n" using rng by auto
  from remap_parents_total [OF lo lh _ this, of ?b0]
  obtain b1 where b1: "remap_parents ?order ?hier (map int [0..<?n]) ?b0 = Inr b1" by auto
  have b1': "remap_parents ?order ?hier (range_py bc) ?b0 = Inr b1"
    using b1 by (simp add: range_py_def)
  have "\<exists>sk. Skeleton_init bc f = Inr (sk, f\<lparr>pos := ?tp + 32 * ?n\<rparr>)"
    unfolding Skeleton_init_def
    using b16 nn bnd b1'
    by (simp add: bind_reads bind_for_ReadByte bind_for_read_bone return_io_def add.commute)
  then show ?L by blast
qed

section \<open>Properties of the strip unrolling\<close>

lemma strip_step_window_le:
  "length (window s) \<le> 2 \<Longrightarrow> length (window (strip_step s x)) \<le> 2"
  by (cases x) (auto split: list.splits)

lemma strip_run_window_le:
  "length (window s) \<le> 2 \<Longrightarrow> length (window (foldl strip_step s stream)) \<le> 2"
  by (induction stream arbitrary: s) (simp_all add: strip_step_window_le)

section \<open>Evaluation of the examples\<close>

lemma replicate_20:
  "replicate 20 x = [x, x, x, x, x, x, x, x, x, x, x, x, x, x, x, x, x, x, x, x]"
  by (simp add: numeral_eq_Suc)

lemma upt_3: "[0..<3] = [0, 1, 2]"
  by (simp add: upt_conv_Cons)

lemmas eval_skeleton = Skeleton_init_eq slice_def le_sint_def bone_at_def Bone_init_def
  range_py_def py_get_def py_index_def Let_def upt_3

lemma example_skeleton_decodes:
  "Skeleton_init 3 \<lparr>data = example_skeleton_bytes, pos = 0\<rparr> =
     Inr (example_skeleton, \<lparr>data = example_skeleton_bytes, pos = 121\<rparr>)"
  by (simp add: eval_skeleton example_skeleton_bytes_def example_skeleton_def replicate_20)

lemma replicate_small:
  "replicate 2 x = [x, x]" "replicate 3 x = [x, x, x]" "replicate 5 x = [x, x, x, x, x]"
  by (simp_all add: numeral_eq_Suc)

lemmas eval_bytes = slice_def le_sint_def char_of_def replicate_small

lemma baked_example_decodes:
  "Mesh_init (Some baked_model) 0 \<lparr>data = example_mesh_bytes, pos = 0\<rparr> =
     Inr (baked_example_mesh, \<lparr>data = example_mesh_bytes, pos = 80\<rparr>)"
  by (simp add: Mesh_init_at mesh_at_def baked_model_def example_mesh_bytes_def
      baked_example_mesh_def eval_bytes)

lemma skinned_example_decodes:
  "Mesh_init (Some skinned_model) 0 \<lparr>data = example_mesh_bytes, pos = 0\<rparr> =
     Inr (skinned_example_mesh, \<lparr>data = example_mesh_bytes, pos = 80\<rparr>)"
  by (simp add: Mesh_init_at mesh_at_def skinned_model_def example_mesh_bytes_def
      skinned_example_mesh_def eval_bytes)

section \<open>The claims\<close>

text \<open>
  C1. Parent reconstruction goes through the order table: in every decoded skeleton and
  for every \<open>i\<close> below \<open>boneCount\<close>, step \<open>i\<close> of the ownership loop stores
  \<open>hierarchy[i]\<close> as the parent of the bone at (Python) index \<open>hierarchyOrder[i]\<close>, and
  the decoded skeleton still holds that value there unless a later entry of the order
  table addresses the same bone. For \<open>hierarchy = [2, -1, 0]\<close> and
  \<open>hierarchyOrder = [1, 2, 0]\<close> bone 1 gets parent 2, bone 2 parent -1 and bone 0
  parent 0.
\<close>

theorem skeleton_parent_permutation:
  assumes "Skeleton_init bc f = Inr (sk, f')"
  shows "(\<forall>i<nat bc. \<exists>j.
            py_index (bones sk) (hierarchyOrder sk ! i) = Inr j \<and>
            (\<exists>b1. remap_parents (hierarchyOrder sk) (hierarchy sk) (range_py (int i + 1))
                     (map (\<lambda>b. b\<lparr>parent := None\<rparr>) (bones sk)) = Inr b1 \<and>
                   parent (b1 ! j) = Some (hierarchy sk ! i)) \<and>
            ((\<forall>i'. i < i' \<and> i' < nat bc \<longrightarrow>
                   py_index (bones sk) (hierarchyOrder sk ! i') \<noteq> Inr j) \<longrightarrow>
             parent (bones sk ! j) = Some (hierarchy sk ! i))) \<and>
         remap_parents [1, 2, 0] [2, - 1, 0] (range_py 3) [b0, b1, b2] =
           Inr [b0\<lparr>parent := Some 0\<rparr>, b1\<lparr>parent := Some 2\<rparr>, b2\<lparr>parent := Some (- 1)\<rparr>]"
proof (intro conjI allI impI)
  fix i assume i: "i < nat bc"
  let ?bs0 = "map (\<lambda>b. b\<lparr>parent := None\<rparr>) (bones sk)"
  note rm = Skeleton_init_remap [OF assms]
  have lh: "length (hierarchy sk) = nat bc" and lo: "length (hierarchyOrder sk) = nat bc"
    using rm by blast+
  have "remap_parents (hierarchyOrder sk) (hierarchy sk) (range_py bc) ?bs0 = Inr (bones sk)"
    using rm by blast
  then have r: "remap_parents (hierarchyOrder sk) (hierarchy sk) (map int [0..<nat bc]) ?bs0 =
                  Inr (bones sk)"
    unfolding range_py_def .
  have c: "py_index ?bs0 k = py_index (bones sk) k" for k
    by (rule py_index_cong) simp
  have s: "range_py (int i + 1) = map int [0..<Suc i]"
    by (simp add: range_py_def nat_add_distrib)
  from remap_parents_receives [OF r lo lh i]
  show "\<exists>j. py_index (bones sk) (hierarchyOrder sk ! i) = Inr j \<and>
            (\<exists>b1. remap_parents (hierarchyOrder sk) (hierarchy sk) (range_py (int i + 1)) ?bs0 = Inr b1 \<and>
                   parent (b1 ! j) = Some (hierarchy sk ! i)) \<and>
            ((\<forall>i'. i < i' \<and> i' < nat bc \<longrightarrow>
                   py_index (bones sk) (hierarchyOrder sk ! i') \<noteq> Inr j) \<longrightarrow>
             parent (bones sk ! j) = Some (hierarchy sk ! i))"
    unfolding c s .
next
  show "remap_parents [1, 2, 0] [2, - 1, 0] (range_py 3) [b0, b1, b2] =
           Inr [b0\<lparr>parent := Some 0\<rparr>, b1\<lparr>parent := Some 2\<rparr>, b2\<lparr>parent := Some (- 1)\<rparr>]"
    by (simp add: range_py_def upt_3 py_get_def py_index_def)
qed

theorem skeleton_parent_permutation_witness:
  "Skeleton_init 3 \<lparr>data = example_skeleton_bytes, pos = 0\<rparr> =
     Inr (example_skeleton, \<lparr>data = example_skeleton_bytes, pos = 121\<rparr>) \<and>
   hierarchy example_skeleton = [2, - 1, 0] \<and>
   hierarchyOrder example_skeleton = [1, 2, 0] \<and>
   parent (bones example_skeleton ! 1) = Some 2 \<and>
   parent (bones example_skeleton ! 2) = Some (- 1) \<and>
   parent (bones example_skeleton ! 0) = Some 0"
proof -
  note t = skeleton_parent_permutation [OF example_skeleton_decodes, THEN conjunct1, rule_format]
  have "parent (bones example_skeleton ! 1) = Some 2"
    using t [of 0] by (auto simp: example_skeleton_def py_index_def)
  moreover have "parent (bones example_skeleton ! 2) = Some (- 1)"
    using t [of 1] by (auto simp: example_skeleton_def py_index_def)
  moreover have "parent (bones example_skeleton ! 0) = Some 0"
    using t [of 2] by (auto simp: example_skeleton_def py_index_def)
  ultimately show ?thesis
    using example_skeleton_decodes by (simp add: example_skeleton_def)
qed

text \<open>
  C2 (as the code has it). \<^verbatim>\<open>Model.__init__\<close> does not look at the tag it reads. Header
  decoding succeeds on every input that holds the 40 bytes of the header, whatever the
  four bytes of the tag are, and gives the model shell with the tag as read, no objects
  and no skeleton; on a shorter input the read that runs past the end fails.
\<close>

theorem header_tag_unchecked:
  "Model_init f =
     (if pos f + 40 \<le> length (data f)
      then Inr (model_at (data f) (pos f), f\<lparr>pos := pos f + 40\<rparr>)
      else Inl OutOfBounds)"
  by (simp add: Model_init_eq model_at_def)

theorem header_tag_unchecked_witness:
  "Model_init \<lparr>data = unknown_tag_header, pos = 0\<rparr> =
     Inr (model_at unknown_tag_header 0, \<lparr>data = unknown_tag_header, pos = 40\<rparr>) \<and>
   Id_str (model_at unknown_tag_header 0) = ''XXXX'' \<and>
   Model_init \<lparr>data = take 39 unknown_tag_header, pos = 0\<rparr> = Inl OutOfBounds"
  using header_tag_unchecked [of "\<lparr>data = unknown_tag_header, pos = 0\<rparr>"]
    header_tag_unchecked [of "\<lparr>data = take 39 unknown_tag_header, pos = 0\<rparr>"]
  by (simp add: unknown_tag_header_def model_at_def slice_def char_of_def)

text \<open>
  C2, counterexample to the claim as stated: a header with the tag \<open>XXXX\<close>, which is
  neither of the two tags the module knows, decodes without error.
\<close>

theorem unknown_tag_accepted:
  "Model_init \<lparr>data = unknown_tag_header, pos = 0\<rparr> =
     Inr (unknown_tag_model, \<lparr>data = unknown_tag_header, pos = 40\<rparr>) \<and>
   Id_str unknown_tag_model = ''XXXX'' \<and> ''XXXX'' \<noteq> ''SCM '' \<and> ''XXXX'' \<noteq> ''MOD ''"
  by (simp add: Model_init_eq unknown_tag_header_def unknown_tag_model_def slice_def le_sint_def
      char_of_def)

text \<open>
  C3 (as the code has it). \<^verbatim>\<open>Skeleton.__init__\<close> ends with the ownership loop and checks
  nothing afterwards. Decoding succeeds exactly when the offset block and the four
  tables lie in the file at positions that are not negative and every entry of the
  order table is a valid index of the bone list; the parent table is read and stored as
  it is, so that parent values of \<open>boneCount\<close> or more and cyclic parent graphs are
  accepted.
\<close>

theorem skeleton_hierarchy_unchecked:
  "((\<exists>sk f'. Skeleton_init bc f = Inr (sk, f')) \<longleftrightarrow>
      pos f + 16 \<le> length (data f) \<and>
      (let d = data f; n = nat bc;
           hp = int (pos f) + le_sint (slice d (pos f) 4);
           op = int (pos f) + le_sint (slice d (pos f + 4) 4);
           cp = int (pos f) + le_sint (slice d (pos f + 8) 4);
           tp = int (pos f) + le_sint (slice d (pos f + 12) 4)
       in 0 \<le> hp \<and> 0 \<le> op \<and> 0 \<le> cp \<and> 0 \<le> tp \<and>
          (n = 0 \<or>
           nat hp + n \<le> length d \<and> nat op + n \<le> length d \<and> nat cp + n \<le> length d \<and>
           nat tp + 32 * n \<le> length d + 20) \<and>
          (\<forall>b\<in>set (slice d (nat op) n). - int n \<le> le_sint [b] \<and> le_sint [b] < int n))) \<and>
   (\<forall>sk f'. Skeleton_init bc f = Inr (sk, f') \<longrightarrow>
      hierarchy sk =
        map (\<lambda>b. le_sint [b])
          (slice (data f) (nat (int (pos f) + le_sint (slice (data f) (pos f) 4))) (nat bc)))"
proof (intro conjI allI impI)
  fix sk f' assume dec: "Skeleton_init bc f = Inr (sk, f')"
  note d = Skeleton_init_InrD [OF dec]
  show "hierarchy sk =
        map (\<lambda>b. le_sint [b])
          (slice (data f) (nat (int (pos f) + le_sint (slice (data f) (pos f) 4))) (nat bc))"
    using d(6) unfolding d(2) .
qed (rule Skeleton_init_succeeds_iff)

theorem skeleton_hierarchy_unchecked_witness:
  "(\<exists>sk f'. Skeleton_init 3 \<lparr>data = cyclic_skeleton_bytes, pos = 0\<rparr> = Inr (sk, f')) \<and>
   map (\<lambda>b. le_sint [b]) (slice cyclic_skeleton_bytes 16 3) = [1, 0, - 1]"
  using skeleton_hierarchy_unchecked [of 3 "\<lparr>data = cyclic_skeleton_bytes, pos = 0\<rparr>",
      THEN conjunct1]
  by (simp add: cyclic_skeleton_bytes_def replicate_20 slice_def le_sint_def Let_def)

text \<open>
  C3, counterexample to the claim as stated: the three-bone skeleton in which bone 0
  and bone 1 are each other's parent decodes without error and keeps these parents.
\<close>

theorem cyclic_hierarchy_accepted:
  "Skeleton_init 3 \<lparr>data = cyclic_skeleton_bytes, pos = 0\<rparr> =
     Inr (cyclic_skeleton, \<lparr>data = cyclic_skeleton_bytes, pos = 121\<rparr>) \<and>
   parent (bones cyclic_skeleton ! 0) = Some 1 \<and>
   parent (bones cyclic_skeleton ! 1) = Some 0"
  by (simp add: eval_skeleton cyclic_skeleton_bytes_def cyclic_skeleton_def replicate_20)

text \<open>
  C4 (as the code has it). After mesh-header decoding \<^verbatim>\<open>positions\<close> holds one
  placeholder (the class object \<^verbatim>\<open>Vector\<close>) per vertex, that is \<open>vertCount\<close> of them and
  none when \<open>vertCount\<close> is not positive; the lists of normals, UVs, bone indices,
  weights, vertex colours, skip markers and faces are empty; the vertex-group list has
  one unset entry per bone of the current model (none when its bone count is not
  positive).
\<close>

theorem mesh_buffers_initialised:
  assumes "Mesh_init (Some g) i f = Inr (m, f')"
  shows "positions m = replicate (nat (vertCount m)) Vector_class \<and>
         normals m = [] \<and> UVs m = [] \<and> boneIndicies m = [] \<and> boneWeights m = [] \<and>
         vertColour m = [] \<and> triSkip m = [] \<and> faces m = [] \<and>
         vertGrp m = replicate (nat (boneCount g)) None"
proof -
  have "m = mesh_at (Id_str g \<noteq> ''SCM '') (boneCount g) (data f) (pos f) i"
    using assms by (simp add: Mesh_init_at split: if_splits)
  then show ?thesis by (simp add: mesh_at_def)
qed

theorem mesh_buffers_initialised_witness:
  "Mesh_init (Some baked_model) 0 \<lparr>data = example_mesh_bytes, pos = 0\<rparr> =
     Inr (baked_example_mesh, \<lparr>data = example_mesh_bytes, pos = 80\<rparr>) \<and>
   positions baked_example_mesh = replicate (nat (vertCount baked_example_mesh)) Vector_class \<and>
   normals baked_example_mesh = [] \<and> faces baked_example_mesh = [] \<and>
   vertGrp baked_example_mesh = replicate (nat (boneCount baked_model)) None"
  using mesh_buffers_initialised [OF baked_example_decodes] baked_example_decodes
  by simp

text \<open>
  C4, counterexample to the claim as stated: the header of a mesh with two vertices
  leaves \<^verbatim>\<open>positions\<close> with two entries, not empty.
\<close>

theorem mesh_positions_not_empty:
  "Mesh_init (Some skinned_model) 0 \<lparr>data = example_mesh_bytes, pos = 0\<rparr> =
     Inr (skinned_example_mesh, \<lparr>data = example_mesh_bytes, pos = 80\<rparr>) \<and>
   positions skinned_example_mesh = [Vector_class, Vector_class] \<and>
   positions skinned_example_mesh \<noteq> []"
  by (simp add: Mesh_init_at mesh_at_def skinned_model_def example_mesh_bytes_def
      skinned_example_mesh_def eval_bytes)

text \<open>
  C5. A mesh header is decoded from 80 bytes laid out as \<open>mesh_at\<close> says: the common
  prefix, then the branch on the tag of the current model (two offsets and 8 bytes of
  padding unless the tag is the baked one, else 16 bytes of padding and one offset),
  then one 8-byte scalar and 8 trailing bytes; the last 8 bytes are skipped by a seek and
  need not exist. \<^verbatim>\<open>Object.ParseMeshes\<close> seeks once to the object's mesh-table offset and
  decodes \<open>meshCount\<close> headers one after the other, the \<open>k\<close>-th at that offset plus
  \<open>80 * k\<close>.
\<close>

theorem mesh_header_layout:
  "Mesh_init (Some g) i f =
     (if pos f + 72 \<le> length (data f)
      then Inr (mesh_at (Id_str g \<noteq> ''SCM '') (boneCount g) (data f) (pos f) i,
                f\<lparr>pos := pos f + 80\<rparr>)
      else Inl OutOfBounds) \<and>
   Object_ParseMeshes (Some g) ob f =
     (if mshOffs ob < 0 then Inl SeekError
      else if nat (meshCount ob) = 0 \<or>
              nat (mshOffs ob) + 80 * nat (meshCount ob) \<le> length (data f) + 8
      then Inr (ob\<lparr>meshes := Some (map (\<lambda>k. mesh_at (Id_str g \<noteq> ''SCM '') (boneCount g) (data f)
                                             (nat (mshOffs ob) + 80 * k) (int k))
                                      [0..<nat (meshCount ob)])\<rparr>,
                f\<lparr>pos := nat (mshOffs ob) + 80 * nat (meshCount ob)\<rparr>)
      else Inl OutOfBounds)"
  using Mesh_init_at Object_ParseMeshes_eq by simp

theorem mesh_header_layout_witness:
  "Mesh_init (Some skinned_model) 0 \<lparr>data = example_mesh_bytes, pos = 0\<rparr> =
     Inr (skinned_example_mesh, \<lparr>data = example_mesh_bytes, pos = 80\<rparr>) \<and>
   Object_ParseMeshes (Some baked_model) (example_object\<lparr>mshOffs := 0\<rparr>)
       \<lparr>data = example_mesh_bytes, pos = 17\<rparr> =
     Inr (example_object\<lparr>mshOffs := 0, meshes := Some [baked_example_mesh]\<rparr>,
          \<lparr>data = example_mesh_bytes, pos = 80\<rparr>)"
  using mesh_header_layout [of skinned_model 0 "\<lparr>data = example_mesh_bytes, pos = 0\<rparr>" example_object]
    mesh_header_layout [of baked_model 0 "\<lparr>data = example_mesh_bytes, pos = 17\<rparr>"
      "example_object\<lparr>mshOffs := 0\<rparr>"]
  by (simp add: mesh_at_def skinned_model_def baked_model_def example_mesh_bytes_def
      skinned_example_mesh_def baked_example_mesh_def example_object_def eval_bytes)

text \<open>
  C6. An object record is decoded from 64 bytes laid out as \<open>object_at\<close> says.
  \<^verbatim>\<open>Model.ParseObjects\<close> seeks to offset 0x40 and decodes \<open>objectCount\<close> records with no
  gap between them, the \<open>k\<close>-th at \<open>0x40 + 64 * k\<close> with index \<open>k\<close>, and appends them to
  the model's object list in that order.
\<close>

theorem object_table_layout:
  "Object_init i f =
     (if pos f + 64 \<le> length (data f)
      then Inr (object_at (data f) (pos f) i, f\<lparr>pos := pos f + 64\<rparr>)
      else Inl OutOfBounds) \<and>
   ParseObjects m f =
     (if nat (objectCount m) = 0 \<or> 64 + 64 * nat (objectCount m) \<le> length (data f)
      then Inr (m\<lparr>objects := objects m @
                    map (\<lambda>k. object_at (data f) (64 + 64 * k) (int k)) [0..<nat (objectCount m)]\<rparr>,
                f\<lparr>pos := 64 + 64 * nat (objectCount m)\<rparr>)
      else Inl OutOfBounds)"
  using Object_init_at ParseObjects_eq by simp

theorem object_table_layout_witness:
  "ParseObjects skinned_model \<lparr>data = example_object_file, pos = 40\<rparr> =
     Inr (skinned_model\<lparr>objects := [example_object]\<rparr>,
          \<lparr>data = example_object_file, pos = 128\<rparr>) \<and>
   Model_init \<lparr>data = example_object_file, pos = 0\<rparr> =
     Inr (skinned_model, \<lparr>data = example_object_file, pos = 40\<rparr>)"
  using object_table_layout [of 0 "\<lparr>data = example_object_file, pos = 40\<rparr>" skinned_model]
  by (simp add: object_at_def skinned_model_def example_object_file_def example_object_def
      Model_init_eq eval_bytes)

text \<open>
  C7. Skeleton decoding reads four 4-byte offsets at the start of the block; each of the
  three index tables is the \<open>boneCount\<close> single bytes found at the block's start plus
  the table's offset; the bones are the transform entries found at the block's start
  plus the transform offset, 32 bytes apart (three floats, 0x14 bytes skipped), the
  \<open>k\<close>-th with index \<open>k\<close>.
\<close>

theorem skeleton_tables_layout:
  assumes "Skeleton_init bc f = Inr (sk, f')"
  shows "pos f + 16 \<le> length (data f) \<and>
         hierarchyOffs sk = le_sint (slice (data f) (pos f) 4) \<and>
         hierarchyOrderOffs sk = le_sint (slice (data f) (pos f + 4) 4) \<and>
         childIdxOffs sk = le_sint (slice (data f) (pos f + 8) 4) \<and>
         transformsOffs sk = le_sint (slice (data f) (pos f + 12) 4) \<and>
         hierarchy sk =
           map (\<lambda>b. le_sint [b]) (slice (data f) (nat (int (pos f) + hierarchyOffs sk)) (nat bc)) \<and>
         hierarchyOrder sk =
           map (\<lambda>b. le_sint [b]) (slice (data f) (nat (int (pos f) + hierarchyOrderOffs sk)) (nat bc)) \<and>
         childIndices sk =
           map (\<lambda>b. le_sint [b]) (slice (data f) (nat (int (pos f) + childIdxOffs sk)) (nat bc)) \<and>
         length (hierarchy sk) = nat bc \<and>
         length (hierarchyOrder sk) = nat bc \<and>
         length (childIndices sk) = nat bc \<and>
         map (\<lambda>b. b\<lparr>parent := None\<rparr>) (bones sk) =
           map (\<lambda>k. bone_at (data f) (nat (int (pos f) + transformsOffs sk) + 32 * k) (int k))
             [0..<nat bc] \<and>
         f' = f\<lparr>pos := nat (int (pos f) + transformsOffs sk) + 32 * nat bc\<rparr>"
proof -
  note d = Skeleton_init_InrD [OF assms]
  note r = Skeleton_init_remap [OF assms]
  show ?thesis
    using d(1) d(2) d(3) d(4) d(5) d(6) d(7) d(8) d(14) r by simp
qed

theorem skeleton_tables_layout_witness:
  "Skeleton_init 3 \<lparr>data = example_skeleton_bytes, pos = 0\<rparr> =
     Inr (example_skeleton, \<lparr>data = example_skeleton_bytes, pos = 121\<rparr>) \<and>
   hierarchy example_skeleton = map (\<lambda>b. le_sint [b]) (slice example_skeleton_bytes 16 3) \<and>
   hierarchyOrder example_skeleton = map (\<lambda>b. le_sint [b]) (slice example_skeleton_bytes 19 3) \<and>
   childIndices example_skeleton = map (\<lambda>b. le_sint [b]) (slice example_skeleton_bytes 22 3) \<and>
   map idx (bones example_skeleton) = [0, 1, 2] \<and>
   map position (bones example_skeleton) =
     [[Float32 1065353216, Float32 0, Float32 0],
      [Float32 0, Float32 1065353216, Float32 0],
      [Float32 0, Float32 0, Float32 1065353216]]"
  using skeleton_tables_layout [OF example_skeleton_decodes] example_skeleton_decodes
  by (simp add: example_skeleton_def)

text \<open>
  C8. Unrolling the index and skip stream as a triangle strip: a skip marker empties the
  two-entry window and emits no face; an index that meets a full window emits exactly
  one triangle, made of the two window entries and the index, becomes the newer window
  entry, and flips the winding of the next triangle; an index that meets a window with
  fewer than two entries only joins it; the window never holds more than two indices.
  The stream \<open>[a, b, c, SKIP, d, e, f]\<close> gives exactly \<open>(a, b, c)\<close> and then, after the
  restart, the fresh triangle \<open>(d, e, f)\<close>.
\<close>

theorem strip_unrolling:
  "window (strip_step s SKIP) = [] \<and>
   emitted (strip_step s SKIP) = emitted s \<and>
   (window s = [p, q] \<longrightarrow>
      emitted (strip_step s (Index v)) =
        emitted s @ [if flipped s then (q, p, v) else (p, q, v)] \<and>
      window (strip_step s (Index v)) = [q, v] \<and>
      flipped (strip_step s (Index v)) = (\<not> flipped s)) \<and>
   (length (window s) < 2 \<longrightarrow>
      emitted (strip_step s (Index v)) = emitted s \<and>
      window (strip_step s (Index v)) = window s @ [v]) \<and>
   length (window (foldl strip_step strip_init stream)) \<le> 2 \<and>
   unroll_strip [Index a, Index b, Index c, SKIP, Index d, Index e, Index f] =
     [(a, b, c), (d, e, f)] \<and>
   unroll_strip [Index a, Index b, Index c, Index d, Index e] =
     [(a, b, c), (c, b, d), (c, d, e)]"
proof (intro conjI impI)
  show "length (window (foldl strip_step strip_init stream)) \<le> 2"
    by (rule strip_run_window_le) (simp add: strip_init_def)
qed (auto simp: unroll_strip_def strip_init_def split: list.splits)

theorem strip_unrolling_witness:
  "unroll_strip [Index 10, Index 11, Index 12, SKIP, Index 20, Index 21, Index 22] =
     [(10, 11, 12), (20, 21, 22)] \<and>
   window (strip_step \<lparr>window = [10, 11], flipped = False, emitted = []\<rparr> SKIP) = [] \<and>
   emitted (strip_step \<lparr>window = [10, 11], flipped = False, emitted = []\<rparr> (Index 12)) =
     [(10, 11, 12)]"
  using strip_unrolling [of "\<lparr>window = [10, 11], flipped = False, emitted = []\<rparr>" 10 11 12
      "[]" 10 11 12 20 21 22]
  by simp

text \<open>
  C9. Mesh-header decoding reads the module-global \<^verbatim>\<open>model\<close>. Its result depends on the
  global only through whether the tag equals the baked tag and through the bone count:
  two globals that agree on both give the same result. From the same bytes at the same
  cursor, two globals that differ in one of them (the bone counts as list lengths) give
  different results: the baked layout sets \<^verbatim>\<open>uknOffs\<close> only, the other layout sets
  \<^verbatim>\<open>boneIndiciesOffs\<close> and \<^verbatim>\<open>weightsOffs\<close> only, and the vertex-group list is as long as
  the global's bone count. While the global is unbound no mesh header is decoded.
\<close>

theorem mesh_header_reads_global_model:
  "((Id_str g1 = ''SCM '') = (Id_str g2 = ''SCM '') \<and> boneCount g1 = boneCount g2 \<longrightarrow>
      Mesh_init (Some g1) i f = Mesh_init (Some g2) i f) \<and>
   (pos f + 72 \<le> length (data f) \<longrightarrow>
      (\<exists>m1 f1. Mesh_init (Some g1) i f = Inr (m1, f1) \<and>
         length (vertGrp m1) = nat (boneCount g1) \<and>
         (Id_str g1 = ''SCM '' \<longrightarrow>
            boneIndiciesOffs m1 = None \<and> weightsOffs m1 = None \<and>
            uknOffs m1 = Some (le_sint (slice (data f) (pos f + 56) 8))) \<and>
         (Id_str g1 \<noteq> ''SCM '' \<longrightarrow>
            boneIndiciesOffs m1 = Some (le_sint (slice (data f) (pos f + 40) 8)) \<and>
            weightsOffs m1 = Some (le_sint (slice (data f) (pos f + 48) 8)) \<and>
            uknOffs m1 = None))) \<and>
   (pos f + 72 \<le> length (data f) \<and>
    ((Id_str g1 = ''SCM '') \<noteq> (Id_str g2 = ''SCM '') \<or>
     nat (boneCount g1) \<noteq> nat (boneCount g2)) \<longrightarrow>
      Mesh_init (Some g1) i f \<noteq> Mesh_init (Some g2) i f) \<and>
   (\<forall>r. Mesh_init None i f \<noteq> Inr r)"
proof (intro conjI impI allI)
  assume "(Id_str g1 = ''SCM '') = (Id_str g2 = ''SCM '') \<and> boneCount g1 = boneCount g2"
  then show "Mesh_init (Some g1) i f = Mesh_init (Some g2) i f"
    by (simp add: Mesh_init_at)
next
  assume "pos f + 72 \<le> length (data f)"
  then show "\<exists>m1 f1. Mesh_init (Some g1) i f = Inr (m1, f1) \<and>
         length (vertGrp m1) = nat (boneCount g1) \<and>
         (Id_str g1 = ''SCM '' \<longrightarrow>
            boneIndiciesOffs m1 = None \<and> weightsOffs m1 = None \<and>
            uknOffs m1 = Some (le_sint (slice (data f) (pos f + 56) 8))) \<and>
         (Id_str g1 \<noteq> ''SCM '' \<longrightarrow>
            boneIndiciesOffs m1 = Some (le_sint (slice (data f) (pos f + 40) 8)) \<and>
            weightsOffs m1 = Some (le_sint (slice (data f) (pos f + 48) 8)) \<and>
            uknOffs m1 = None)"
    by (simp add: Mesh_init_at mesh_at_def)
next
  assume a: "pos f + 72 \<le> length (data f) \<and>
    ((Id_str g1 = ''SCM '') \<noteq> (Id_str g2 = ''SCM '') \<or>
     nat (boneCount g1) \<noteq> nat (boneCount g2))"
  show "Mesh_init (Some g1) i f \<noteq> Mesh_init (Some g2) i f"
  proof
    assume "Mesh_init (Some g1) i f = Mesh_init (Some g2) i f"
    then have e: "mesh_at (Id_str g1 \<noteq> ''SCM '') (boneCount g1) (data f) (pos f) i =
               mesh_at (Id_str g2 \<noteq> ''SCM '') (boneCount g2) (data f) (pos f) i"
      using a by (simp add: Mesh_init_at)
    from arg_cong [OF e, of uknOffs] arg_cong [OF e, of "\<lambda>m. length (vertGrp m)"]
    show False using a by (auto simp: mesh_at_def split: if_splits)
  qed
next
  fix r show "Mesh_init None i f \<noteq> Inr r"
    by (simp add: Mesh_init_None)
qed

theorem mesh_header_reads_global_model_witness:
  "Mesh_init (Some baked_model) 0 \<lparr>data = example_mesh_bytes, pos = 0\<rparr> =
     Inr (baked_example_mesh, \<lparr>data = example_mesh_bytes, pos = 80\<rparr>) \<and>
   Mesh_init (Some skinned_model) 0 \<lparr>data = example_mesh_bytes, pos = 0\<rparr> =
     Inr (skinned_example_mesh, \<lparr>data = example_mesh_bytes, pos = 80\<rparr>) \<and>
   Mesh_init (Some baked_model) 0 \<lparr>data = example_mesh_bytes, pos = 0\<rparr> \<noteq>
     Mesh_init (Some skinned_model) 0 \<lparr>data = example_mesh_bytes, pos = 0\<rparr> \<and>
   uknOffs baked_example_mesh = Some 1536 \<and> uknOffs skinned_example_mesh = None \<and>
   length (vertGrp baked_example_mesh) = 3 \<and> length (vertGrp skinned_example_mesh) = 5"
proof -
  have "Mesh_init (Some baked_model) 0 \<lparr>data = example_mesh_bytes, pos = 0\<rparr> \<noteq>
     Mesh_init (Some skinned_model) 0 \<lparr>data = example_mesh_bytes, pos = 0\<rparr>"
    using mesh_header_reads_global_model
      [of baked_model skinned_model 0 "\<lparr>data = example_mesh_bytes, pos = 0\<rparr>"]
    by (simp add: baked_model_def skinned_model_def example_mesh_bytes_def)
  then show ?thesis
    using baked_example_decodes skinned_example_decodes
    by (simp add: baked_example_mesh_def skinned_example_mesh_def)
qed

text \<open>
  C10. The list \<^verbatim>\<open>parents\<close> of a decoded skeleton has one entry per bone index, every entry
  is -1, and the ownership loop leaves it as it is: whatever the file holds, after
  \<^verbatim>\<open>Skeleton.__init__\<close> has returned the list is \<open>boneCount\<close> times -1 (empty when
  \<open>boneCount\<close> is not positive).
\<close>

theorem skeleton_parents_list_constant:
  assumes "Skeleton_init bc f = Inr (sk, f')"
  shows "parents sk = replicate (nat bc) (- 1)"
  using Skeleton_init_InrD(13) [OF assms]
  by (simp add: map_replicate_const length_range_py)

theorem skeleton_parents_list_constant_witness:
  "Skeleton_init 3 \<lparr>data = example_skeleton_bytes, pos = 0\<rparr> =
     Inr (example_skeleton, \<lparr>data = example_skeleton_bytes, pos = 121\<rparr>) \<and>
   parents example_skeleton = replicate (nat 3) (- 1) \<and>
   map parent (bones example_skeleton) = [Some 0, Some 2, Some (- 1)]"
  using skeleton_parents_list_constant [OF example_skeleton_decodes] example_skeleton_decodes
  by (simp add: example_skeleton_def)

end
